theory Spec2Isabelle
  imports Main "HOL-Library.Char_ord" "HOL-Library.List_Lexorder"
begin

section \<open>JavaScript strings and values\<close>

text \<open>
  A JavaScript string is a sequence of code units; \<open>length\<close>, \<open>substring\<close>,
  \<open>lastIndexOf\<close>, \<open>split\<close> and \<open>trim\<close> all count code units. The model uses
  \<^typ>\<open>string\<close>, one \<^typ>\<open>char\<close> per code unit, which covers the code units
  0..255. The white space of \<open>String.prototype.trim\<close> and of the regular expression
  class \<open>\s\<close> in that range is TAB, LF, VT, FF, CR, SPACE and NBSP.
\<close>

definition is_ws :: "char \<Rightarrow> bool" where
  "is_ws c = (of_char c \<in> {9, 10, 11, 12, 13, 32, 160 :: nat})"

definition trim :: "string \<Rightarrow> string" where
  "trim s = rev (dropWhile is_ws (rev (dropWhile is_ws s)))"

definition startsWith :: "string \<Rightarrow> string \<Rightarrow> bool" where
  "startsWith s p = (take (length p) s = p)"

text \<open>\<open>s.includes(sub)\<close>: \<open>sub\<close> occurs in \<open>s\<close> at some position.\<close>

fun str_includes :: "string \<Rightarrow> string \<Rightarrow> bool" where
  "str_includes [] sub = (sub = [])"
| "str_includes (x # xs) sub = (startsWith (x # xs) sub \<or> str_includes xs sub)"

text \<open>\<open>s.split(c)\<close> for a one-character separator; the result is never empty.\<close>

fun split_on :: "char \<Rightarrow> string \<Rightarrow> string list" where
  "split_on c [] = [[]]"
| "split_on c (x # xs) =
     (if x = c then [] # split_on c xs
      else (case split_on c xs of
              [] \<Rightarrow> [[x]]
            | w # ws \<Rightarrow> (x # w) # ws))"

text \<open>\<open>xs[i]\<close> on an array: \<open>undefined\<close> (here \<open>None\<close>) out of range.\<close>

definition at_index :: "'a list \<Rightarrow> nat \<Rightarrow> 'a option" where
  "at_index xs i = (if i < length xs then Some (xs ! i) else None)"

definition lower_char :: "char \<Rightarrow> char" where
  "lower_char c =
     (let n = (of_char c :: nat)
      in if (65 \<le> n \<and> n \<le> 90) \<or> (192 \<le> n \<and> n \<le> 222 \<and> n \<noteq> 215)
         then char_of (n + 32) else c)"

definition toLowerCase :: "string \<Rightarrow> string" where
  "toLowerCase s = map lower_char s"

text \<open>
  \<open>s.lastIndexOf(c)\<close> is the greatest index holding \<open>c\<close>, or \<open>-1\<close>;
  \<open>s.substring(0, n)\<close> clamps \<open>n\<close> to \<open>0..length\<close>.
\<close>

definition lastIndexOf :: "string \<Rightarrow> char \<Rightarrow> int" where
  "lastIndexOf s c =
     (case find (\<lambda>i. s ! i = c) (rev [0..<length s]) of
        None \<Rightarrow> - 1
      | Some i \<Rightarrow> int i)"

definition substring0 :: "string \<Rightarrow> int \<Rightarrow> string" where
  "substring0 s n = take (nat n) s"

text \<open>
  A header or query parameter that may be missing is a \<^typ>\<open>string option\<close>;
  \<open>!v\<close> holds for \<open>undefined\<close> and for the empty string.
\<close>

definition falsy :: "string option \<Rightarrow> bool" where
  "falsy v = (case v of None \<Rightarrow> True | Some s \<Rightarrow> s = [])"

definition str_of :: "string option \<Rightarrow> string" where
  "str_of v = (case v of None \<Rightarrow> [] | Some s \<Rightarrow> s)"

text \<open>Decimal numerals: \<open>String(n)\<close> in a template literal and \<open>parseInt(s, 10)\<close>.\<close>

definition digit_char :: "nat \<Rightarrow> char" where
  "digit_char d = char_of (48 + d)"

fun show_nat :: "nat \<Rightarrow> string" where
  "show_nat n = (if n < 10 then [digit_char n] else show_nat (n div 10) @ [digit_char (n mod 10)])"

declare show_nat.simps [simp del]

definition is_digit :: "char \<Rightarrow> bool" where
  "is_digit c = (48 \<le> (of_char c :: nat) \<and> (of_char c :: nat) \<le> 57)"

definition digits_value :: "string \<Rightarrow> nat" where
  "digits_value ds = foldl (\<lambda>acc c. 10 * acc + (of_char c - 48)) 0 ds"

text \<open>
  \<open>parseInt(s, 10)\<close>: leading white space is skipped, one sign is read, then the
  longest run of digits; \<open>NaN\<close> (here \<open>None\<close>) when that run is empty. The value
  is the exact integer, which is what JavaScript computes up to \<open>2^53\<close>.
\<close>

definition parseInt :: "string \<Rightarrow> int option" where
  "parseInt s =
     (let t = dropWhile is_ws s;
          neg = (t \<noteq> [] \<and> hd t = CHR ''-'');
          r = (if t \<noteq> [] \<and> (hd t = CHR ''-'' \<or> hd t = CHR ''+'') then tl t else t);
          ds = takeWhile is_digit r
      in if ds = [] then None
         else Some (if neg then - int (digits_value ds) else int (digits_value ds)))"

text \<open>JSON values as the handlers build them; an object keeps its keys in order.\<close>

datatype json =
    JNull
  | JBool bool
  | JNum int
  | JStr string
  | JArr "json list"
  | JObj "(string \<times> json) list"

text \<open>\<open>obj[k]\<close> on a JSON value.\<close>

definition field :: "string \<Rightarrow> json \<Rightarrow> json option" where
  "field k j = (case j of JObj kvs \<Rightarrow> map_of kvs k | _ \<Rightarrow> None)"

text \<open>The keys that occur anywhere inside a JSON value.\<close>

fun keys_of :: "json \<Rightarrow> string list" where
  "keys_of JNull = []"
| "keys_of (JBool b) = []"
| "keys_of (JNum n) = []"
| "keys_of (JStr s) = []"
| "keys_of (JArr xs) = concat (map keys_of xs)"
| "keys_of (JObj kvs) = concat (map (\<lambda>kv. fst kv # keys_of (snd kv)) kvs)"

text \<open>
  A field of a parsed JSON request body is any JSON value, or \<open>undefined\<close> (here
  \<open>None\<close>) when the body has no such field. Numbers are the integers. The handlers
  apply to such a value: \<open>!v\<close>; string methods (\<open>v.trim()\<close>,
  \<open>v.toLowerCase()\<close>), which exist on strings only, so that the call throws a
  \<open>TypeError\<close> on any other value; \<open>typeof v\<close>; the conversion to a string that
  \<open>RegExp.test\<close> makes; and \<open>v.length < n\<close>.
\<close>

fun truthy :: "json \<Rightarrow> bool" where
  "truthy JNull = False"
| "truthy (JBool b) = b"
| "truthy (JNum n) = (n \<noteq> 0)"
| "truthy (JStr s) = (s \<noteq> [])"
| "truthy (JArr xs) = True"
| "truthy (JObj kvs) = True"

definition js_not :: "json option \<Rightarrow> bool" where
  "js_not v = (case v of None \<Rightarrow> True | Some j \<Rightarrow> \<not> truthy j)"

definition is_string :: "json option \<Rightarrow> bool" where
  "is_string v = (case v of Some (JStr s) \<Rightarrow> True | _ \<Rightarrow> False)"

text \<open>The string a value is, when it is one (and the empty string otherwise).\<close>

definition text_of :: "json option \<Rightarrow> string" where
  "text_of v = (case v of Some (JStr s) \<Rightarrow> s | _ \<Rightarrow> [])"

definition js_typeof :: "json option \<Rightarrow> string" where
  "js_typeof v =
     (case v of
        None \<Rightarrow> ''undefined''
      | Some (JBool b) \<Rightarrow> ''boolean''
      | Some (JNum n) \<Rightarrow> ''number''
      | Some (JStr s) \<Rightarrow> ''string''
      | Some _ \<Rightarrow> ''object'')"

definition show_int :: "int \<Rightarrow> string" where
  "show_int n = (if n < 0 then CHR ''-'' # show_nat (nat (- n)) else show_nat (nat n))"

fun join_comma :: "string list \<Rightarrow> string" where
  "join_comma [] = []"
| "join_comma [s] = s"
| "join_comma (s # t # ts) = s @ '','' @ join_comma (t # ts)"

text \<open>
  \<open>String(v)\<close>: an array is its elements joined by commas, \<open>null\<close> elements
  as empty strings; an object is \<open>[object Object]\<close>.
\<close>

fun js_String :: "json \<Rightarrow> string" where
  "js_String JNull = ''null''"
| "js_String (JBool b) = (if b then ''true'' else ''false'')"
| "js_String (JNum n) = show_int n"
| "js_String (JStr s) = s"
| "js_String (JArr xs) = join_comma (map (\<lambda>x. if x = JNull then [] else js_String x) xs)"
| "js_String (JObj kvs) = ''[object Object]''"

definition to_text :: "json option \<Rightarrow> string" where
  "to_text v = (case v of None \<Rightarrow> ''undefined'' | Some j \<Rightarrow> js_String j)"

text \<open>
  \<open>Number(v)\<close>, \<open>NaN\<close> being \<open>None\<close>. A string counts when, trimmed, it is
  empty (zero) or a decimal integer with an optional sign; other numeric spellings
  (fractions, exponents, hexadecimal, \<open>Infinity\<close>) are not read.
\<close>

definition string_to_number :: "string \<Rightarrow> int option" where
  "string_to_number s =
     (let t = trim s;
          neg = (t \<noteq> [] \<and> hd t = CHR ''-'');
          r = (if t \<noteq> [] \<and> (hd t = CHR ''-'' \<or> hd t = CHR ''+'') then tl t else t)
      in if t = [] then Some 0
         else if r \<noteq> [] \<and> list_all is_digit r
         then Some (if neg then - int (digits_value r) else int (digits_value r))
         else None)"

fun to_number :: "json \<Rightarrow> int option" where
  "to_number JNull = Some 0"
| "to_number (JBool b) = Some (if b then 1 else 0)"
| "to_number (JNum n) = Some n"
| "to_number (JStr s) = string_to_number s"
| "to_number (JArr xs) = string_to_number (js_String (JArr xs))"
| "to_number (JObj kvs) = None"

text \<open>
  \<open>v.length < n\<close>: the length of a string or an array; the member \<open>length\<close> of
  an object (the last one, when the key is repeated), as a number; \<open>undefined\<close> on a
  number or a boolean, which is below nothing.
\<close>

definition length_below :: "json option \<Rightarrow> int \<Rightarrow> bool" where
  "length_below v n =
     (case v of
        Some (JStr s) \<Rightarrow> int (length s) < n
      | Some (JArr xs) \<Rightarrow> int (length xs) < n
      | Some (JObj kvs) \<Rightarrow>
          (case map_of (rev kvs) ''length'' of
             None \<Rightarrow> False
           | Some m \<Rightarrow> (case to_number m of None \<Rightarrow> False | Some k \<Rightarrow> k < n))
      | _ \<Rightarrow> False)"

record response =
  status :: nat
  body :: "json option"

definition json_response :: "nat \<Rightarrow> (string \<times> json) list \<Rightarrow> response" where
  "json_response code kvs = \<lparr>status = code, body = Some (JObj kvs)\<rparr>"

definition error_response :: "nat \<Rightarrow> string \<Rightarrow> string \<Rightarrow> response" where
  "error_response code e d = json_response code [(''error'', JStr e), (''details'', JStr d)]"

section \<open>The SQLite store (models/database.js)\<close>

text \<open>
  The two tables of \<open>initializeDatabase\<close>. \<open>AUTOINCREMENT\<close> ids come from a
  per-table sequence, \<open>createdAt\<close> defaults to \<open>CURRENT_TIMESTAMP\<close> (the text
  \<open>current_timestamp\<close> of the store), \<open>email\<close> is \<open>UNIQUE\<close>. The helpers
  \<open>runQuery\<close>, \<open>getQuery\<close> and \<open>allQuery\<close> reject with the driver's error;
  \<open>fault\<close> is that error when the driver fails.
\<close>

record user_row =
  u_id :: nat
  u_email :: string
  u_passwordHash :: string
  u_createdAt :: string

record post_row =
  r_id :: nat
  r_title :: string
  r_content :: string
  r_authorId :: nat
  r_createdAt :: string

record database =
  users :: "user_row list"
  posts :: "post_row list"
  users_seq :: nat
  posts_seq :: nat
  current_timestamp :: string
  fault :: "string option"

text \<open>\<open>SELECT * FROM users WHERE id = ?\<close>\<close>

definition select_user_by_id :: "database \<Rightarrow> nat \<Rightarrow> string + user_row option" where
  "select_user_by_id db i =
     (case fault db of
        Some e \<Rightarrow> Inl e
      | None \<Rightarrow> Inr (find (\<lambda>u. u_id u = i) (users db)))"

text \<open>\<open>SELECT * FROM users WHERE email = ?\<close>\<close>

definition select_user_by_email :: "database \<Rightarrow> string \<Rightarrow> string + user_row option" where
  "select_user_by_email db e =
     (case fault db of
        Some err \<Rightarrow> Inl err
      | None \<Rightarrow> Inr (find (\<lambda>u. u_email u = e) (users db)))"

text \<open>\<open>INSERT INTO users (email, passwordHash) VALUES (?, ?)\<close>; resolves to \<open>lastID\<close>.\<close>

definition insert_user :: "database \<Rightarrow> string \<Rightarrow> string \<Rightarrow> string + (nat \<times> database)" where
  "insert_user db e h =
     (case fault db of
        Some err \<Rightarrow> Inl err
      | None \<Rightarrow>
          if e \<in> set (map u_email (users db))
          then Inl ''SQLITE_CONSTRAINT: UNIQUE constraint failed: users.email''
          else let i = users_seq db + 1
               in Inr (i, db\<lparr>users := users db @
                                [\<lparr>u_id = i, u_email = e, u_passwordHash = h,
                                  u_createdAt = current_timestamp db\<rparr>],
                              users_seq := i\<rparr>))"

text \<open>\<open>INSERT INTO posts (title, content, authorId) VALUES (?, ?, ?)\<close>\<close>

definition insert_post :: "database \<Rightarrow> string \<Rightarrow> string \<Rightarrow> nat \<Rightarrow> string + (nat \<times> database)" where
  "insert_post db t c a =
     (case fault db of
        Some err \<Rightarrow> Inl err
      | None \<Rightarrow>
          let i = posts_seq db + 1
          in Inr (i, db\<lparr>posts := posts db @
                           [\<lparr>r_id = i, r_title = t, r_content = c, r_authorId = a,
                             r_createdAt = current_timestamp db\<rparr>],
                         posts_seq := i\<rparr>))"

text \<open>\<open>UPDATE posts SET title = ?, content = ? WHERE id = ?\<close>\<close>

definition update_post_row :: "string \<Rightarrow> string \<Rightarrow> nat \<Rightarrow> post_row \<Rightarrow> post_row" where
  "update_post_row t c i r = (if r_id r = i then r\<lparr>r_title := t, r_content := c\<rparr> else r)"

definition update_post :: "database \<Rightarrow> string \<Rightarrow> string \<Rightarrow> nat \<Rightarrow> string + database" where
  "update_post db t c i =
     (case fault db of
        Some err \<Rightarrow> Inl err
      | None \<Rightarrow> Inr (db\<lparr>posts := map (update_post_row t c i) (posts db)\<rparr>))"

text \<open>\<open>DELETE FROM posts WHERE id = ?\<close>; resolves to the number of rows removed.\<close>

definition delete_post :: "database \<Rightarrow> nat \<Rightarrow> string + (nat \<times> database)" where
  "delete_post db i =
     (case fault db of
        Some err \<Rightarrow> Inl err
      | None \<Rightarrow>
          Inr (length (filter (\<lambda>r. r_id r = i) (posts db)),
               db\<lparr>posts := filter (\<lambda>r. r_id r \<noteq> i) (posts db)\<rparr>))"

text \<open>
  A post as the queries of \<open>models/Post.js\<close> return it: the row joined
  (\<open>LEFT JOIN\<close>) with its author's email, \<open>null\<close> when no user has that id.
\<close>

record Post =
  p_id :: nat
  p_title :: string
  p_content :: string
  p_authorId :: nat
  p_createdAt :: string
  p_authorEmail :: "string option"

definition join_author :: "database \<Rightarrow> post_row \<Rightarrow> Post" where
  "join_author db r =
     \<lparr>p_id = r_id r, p_title = r_title r, p_content = r_content r,
      p_authorId = r_authorId r, p_createdAt = r_createdAt r,
      p_authorEmail = map_option u_email (find (\<lambda>u. u_id u = r_authorId r) (users db))\<rparr>"

text \<open>\<open>SELECT ... FROM posts LEFT JOIN users ... WHERE posts.id = ?\<close>\<close>

definition select_post_by_id :: "database \<Rightarrow> nat \<Rightarrow> string + Post option" where
  "select_post_by_id db i =
     (case fault db of
        Some err \<Rightarrow> Inl err
      | None \<Rightarrow> Inr (map_option (join_author db) (find (\<lambda>r. r_id r = i) (posts db))))"

text \<open>
  \<open>SELECT ... FROM posts LEFT JOIN users ... [WHERE posts.authorId = ?]
  ORDER BY posts.createdAt DESC\<close>. SQLite compares the timestamps as text; rows with
  equal timestamps come in an order SQL leaves open, here the order of insertion (the
  sort is stable).
\<close>

definition select_posts :: "database \<Rightarrow> nat option \<Rightarrow> string + Post list" where
  "select_posts db author =
     (case fault db of
        Some err \<Rightarrow> Inl err
      | None \<Rightarrow>
          Inr (map (join_author db)
                 (rev (sort_key r_createdAt (rev
                    (case author of
                       None \<Rightarrow> posts db
                     | Some a \<Rightarrow> filter (\<lambda>r. r_authorId r = a) (posts db)))))))"

section \<open>Tokens: the jsonwebtoken package as the backend calls it\<close>

text \<open>
  \<open>jsonwebtoken\<close> is a dependency, not code of the repository; the model below
  follows the package's documented behaviour for HMAC tokens. A token is the compact
  serialisation of a set of claims with a signature. The signature is symbolic:
  \<open>sig_key\<close> is the secret under which it verifies. The serialisation is kept abstract
  (\<open>jwt_encode\<close> and \<open>jwt_decode\<close> of the environment); a string that is not a
  serialisation decodes to \<open>None\<close>. Times are seconds since the epoch; a time span
  (\<open>'7d'\<close>) is the number of seconds it stands for. Every token carries the numeric
  claim \<open>userId\<close>.
\<close>

record jws =
  sig_key :: string
  c_userId :: nat
  c_iat :: int
  c_nbf :: "int option"
  c_exp :: "int option"
  c_iss :: "string option"
  c_aud :: "string option"

record js_error =
  name :: string
  message :: string

text \<open>
  What the process reads from outside: \<open>process.env.JWT_SECRET\<close>, \<open>Date.now()\<close>
  (milliseconds), the token serialisation, and \<open>bcryptjs\<close> (\<open>bcrypt.hash\<close> with
  the salt it drew, \<open>bcrypt.compare\<close>).
\<close>

record env =
  JWT_SECRET :: "string option"
  now_ms :: int
  jwt_encode :: "jws \<Rightarrow> string"
  jwt_decode :: "string \<Rightarrow> jws option"
  bcrypt_hash :: "string \<Rightarrow> string"
  bcrypt_compare :: "string \<Rightarrow> string \<Rightarrow> bool"

record sign_options =
  expiresIn :: int
  issuer :: string
  audience :: string

record verify_options =
  expect_issuer :: "string option"
  expect_audience :: "string option"

definition no_verify_options :: verify_options where
  "no_verify_options = \<lparr>expect_issuer = None, expect_audience = None\<rparr>"

text \<open>
  \<open>jwt.sign({userId, iat}, secret, {expiresIn, issuer, audience})\<close>: throws on a
  missing or empty secret; \<open>exp\<close> is \<open>iat + expiresIn\<close>.
\<close>

definition jwt_sign :: "env \<Rightarrow> nat \<Rightarrow> int \<Rightarrow> string option \<Rightarrow> sign_options \<Rightarrow> string + string" where
  "jwt_sign env uid iat secret opts =
     (case secret of
        None \<Rightarrow> Inl ''secretOrPrivateKey must have a value''
      | Some k \<Rightarrow>
          if k = [] then Inl ''secretOrPrivateKey must have a value''
          else Inr (jwt_encode env
                 \<lparr>sig_key = k, c_userId = uid, c_iat = iat, c_nbf = None,
                  c_exp = Some (iat + expiresIn opts),
                  c_iss = Some (issuer opts), c_aud = Some (audience opts)\<rparr>))"

definition JsonWebTokenError :: "string \<Rightarrow> js_error" where
  "JsonWebTokenError m = \<lparr>name = ''JsonWebTokenError'', message = m\<rparr>"

definition not_before :: "jws \<Rightarrow> int \<Rightarrow> bool" where
  "not_before t clock = (case c_nbf t of None \<Rightarrow> False | Some n \<Rightarrow> clock < n)"

definition expired :: "jws \<Rightarrow> int \<Rightarrow> bool" where
  "expired t clock = (case c_exp t of None \<Rightarrow> False | Some e \<Rightarrow> e \<le> clock)"

definition claim_mismatch :: "string option \<Rightarrow> string option \<Rightarrow> bool" where
  "claim_mismatch expected actual =
     (case expected of None \<Rightarrow> False | Some x \<Rightarrow> actual \<noteq> Some x)"

text \<open>
  \<open>jwt.verify(token, secret, options)\<close> at the current time: structure, then the
  signature, then \<open>nbf\<close>, then \<open>exp\<close> (expired when \<open>now >= exp\<close>), then the
  audience and the issuer, each of the last two only when \<open>options\<close> names one.
\<close>

definition jwt_verify :: "env \<Rightarrow> string \<Rightarrow> string option \<Rightarrow> verify_options \<Rightarrow> js_error + jws" where
  "jwt_verify env token secret opts =
     (let clock = now_ms env div 1000
      in case jwt_decode env token of
           None \<Rightarrow>
             Inl (JsonWebTokenError
                    (if token = [] then ''jwt must be provided'' else ''jwt malformed''))
         | Some t \<Rightarrow>
             (case secret of
                None \<Rightarrow> Inl (JsonWebTokenError ''secret or public key must be provided'')
              | Some k \<Rightarrow>
                  if k = [] then Inl (JsonWebTokenError ''secret or public key must be provided'')
                  else if sig_key t \<noteq> k then Inl (JsonWebTokenError ''invalid signature'')
                  else if not_before t clock
                    then Inl \<lparr>name = ''NotBeforeError'', message = ''jwt not active''\<rparr>
                  else if expired t clock
                    then Inl \<lparr>name = ''TokenExpiredError'', message = ''jwt expired''\<rparr>
                  else if claim_mismatch (expect_audience opts) (c_aud t)
                    then Inl (JsonWebTokenError
                           (''jwt audience invalid. expected: '' @
                            str_of (expect_audience opts)))
                  else if claim_mismatch (expect_issuer opts) (c_iss t)
                    then Inl (JsonWebTokenError
                           (''jwt issuer invalid. expected: '' @ str_of (expect_issuer opts)))
                  else Inr t))"

section \<open>models/User.js\<close>

definition User_findById :: "database \<Rightarrow> nat \<Rightarrow> string + user_row option" where
  "User_findById db i =
     (case select_user_by_id db i of
        Inl e \<Rightarrow> Inl (''Failed to find user by ID: '' @ e)
      | Inr row \<Rightarrow> Inr row)"

definition User_findByEmail :: "database \<Rightarrow> string \<Rightarrow> string + user_row option" where
  "User_findByEmail db email =
     (case select_user_by_email db email of
        Inl e \<Rightarrow> Inl (''Failed to find user by email: '' @ e)
      | Inr row \<Rightarrow> Inr row)"

text \<open>
  \<open>bcrypt.hash(password, saltRounds)\<close> and \<open>bcrypt.compare(password, hash)\<close> of
  \<open>bcryptjs\<close>: both reject with \<open>Illegal arguments\<close> when the password is not a
  string; on strings they are the functions of the environment.
\<close>

definition hash_password :: "env \<Rightarrow> json option \<Rightarrow> string + string" where
  "hash_password env password =
     (if is_string password then Inr (bcrypt_hash env (text_of password))
      else Inl (''Illegal arguments: '' @ js_typeof password @ '', number''))"

definition compare_password :: "env \<Rightarrow> json option \<Rightarrow> string \<Rightarrow> string + bool" where
  "compare_password env password hash =
     (if is_string password then Inr (bcrypt_compare env (text_of password) hash)
      else Inl (''Illegal arguments: '' @ js_typeof password @ '', string''))"

definition User_create :: "env \<Rightarrow> database \<Rightarrow> string \<Rightarrow> json option \<Rightarrow> (string + user_row option) \<times> database" where
  "User_create env db email password =
     (case User_findByEmail db email of
        Inl e \<Rightarrow> (Inl (''Failed to create user: '' @ e), db)
      | Inr (Some existingUser) \<Rightarrow>
          (Inl ''Failed to create user: User with this email already exists'', db)
      | Inr None \<Rightarrow>
          (case hash_password env password of
             Inl e \<Rightarrow> (Inl (''Failed to create user: '' @ e), db)
           | Inr passwordHash \<Rightarrow>
               (case insert_user db email passwordHash of
                  Inl e \<Rightarrow> (Inl (''Failed to create user: '' @ e), db)
                | Inr (i, db') \<Rightarrow>
                    (case User_findById db' i of
                       Inl e \<Rightarrow> (Inl (''Failed to create user: '' @ e), db')
                     | Inr newUser \<Rightarrow> (Inr newUser, db')))))"

text \<open>
  \<open>user.verifyPassword(password)\<close>: the boolean of \<open>bcrypt.compare\<close>, or its
  error rethrown.
\<close>

definition verifyPassword :: "env \<Rightarrow> user_row \<Rightarrow> json option \<Rightarrow> string + bool" where
  "verifyPassword env u password =
     (case compare_password env password (u_passwordHash u) of
        Inl e \<Rightarrow> Inl (''Failed to verify password: '' @ e)
      | Inr isValid \<Rightarrow> Inr isValid)"

definition toSafeObject :: "user_row \<Rightarrow> json" where
  "toSafeObject u =
     JObj [(''id'', JNum (int (u_id u))),
           (''email'', JStr (u_email u)),
           (''createdAt'', JStr (u_createdAt u))]"

section \<open>models/Post.js\<close>

definition Post_findById :: "database \<Rightarrow> nat \<Rightarrow> string + Post option" where
  "Post_findById db i =
     (case select_post_by_id db i of
        Inl e \<Rightarrow> Inl (''Failed to find post: '' @ e)
      | Inr row \<Rightarrow> Inr row)"

text \<open>\<open>findAll(authorId = null)\<close> filters when \<open>authorId\<close> is truthy.\<close>

definition Post_findAll :: "database \<Rightarrow> nat option \<Rightarrow> string + Post list" where
  "Post_findAll db authorId =
     (case select_posts db (if authorId = Some 0 then None else authorId) of
        Inl e \<Rightarrow> Inl (''Failed to fetch posts: '' @ e)
      | Inr rows \<Rightarrow> Inr rows)"

definition Post_findByAuthor :: "database \<Rightarrow> nat option \<Rightarrow> string + Post list" where
  "Post_findByAuthor db authorId = Post_findAll db authorId"

text \<open>
  The test \<open>!v || v.trim().length === 0\<close> of \<open>Post.create\<close> and
  \<open>Post.update\<close>: the value is missing or blank (\<open>Inr True\<close>), is a usable
  text (\<open>Inr False\<close>), or is not a string, so that \<open>v.trim\<close> is not a function
  and the call throws (\<open>Inl\<close>, with the name of the variable).
\<close>

definition blank :: "string \<Rightarrow> json option \<Rightarrow> string + bool" where
  "blank var v =
     (if js_not v then Inr True
      else if \<not> is_string v then Inl (var @ ''.trim is not a function'')
      else Inr (length (trim (text_of v)) = 0))"

definition Post_create :: "database \<Rightarrow> json option \<Rightarrow> json option \<Rightarrow> nat \<Rightarrow> (string + Post option) \<times> database" where
  "Post_create db title content authorId =
     (case blank ''title'' title of
        Inl e \<Rightarrow> (Inl (''Failed to create post: '' @ e), db)
      | Inr True \<Rightarrow> (Inl ''Failed to create post: Title is required'', db)
      | Inr False \<Rightarrow>
          (case blank ''content'' content of
             Inl e \<Rightarrow> (Inl (''Failed to create post: '' @ e), db)
           | Inr True \<Rightarrow> (Inl ''Failed to create post: Content is required'', db)
           | Inr False \<Rightarrow>
               if authorId = 0
               then (Inl ''Failed to create post: Author ID is required'', db)
               else let trimmedTitle = trim (text_of title);
                        trimmedContent = trim (text_of content)
                    in case insert_post db trimmedTitle trimmedContent authorId of
                         Inl e \<Rightarrow> (Inl (''Failed to create post: '' @ e), db)
                       | Inr (i, db') \<Rightarrow>
                           (case Post_findById db' i of
                              Inl e \<Rightarrow> (Inl (''Failed to create post: '' @ e), db')
                            | Inr newPost \<Rightarrow> (Inr newPost, db'))))"

text \<open>
  \<open>post.update(title, content, requestingUserId)\<close>: the ownership check comes
  first; on success the row and the object both take the trimmed texts.
\<close>

definition Post_update :: "database \<Rightarrow> Post \<Rightarrow> json option \<Rightarrow> json option \<Rightarrow> nat \<Rightarrow> (string + Post) \<times> database" where
  "Post_update db this title content requestingUserId =
     (if p_authorId this \<noteq> requestingUserId
        then (Inl ''Failed to update post: You can only edit your own posts'', db)
      else case blank ''title'' title of
             Inl e \<Rightarrow> (Inl (''Failed to update post: '' @ e), db)
           | Inr True \<Rightarrow> (Inl ''Failed to update post: Title is required'', db)
           | Inr False \<Rightarrow>
               (case blank ''content'' content of
                  Inl e \<Rightarrow> (Inl (''Failed to update post: '' @ e), db)
                | Inr True \<Rightarrow> (Inl ''Failed to update post: Content is required'', db)
                | Inr False \<Rightarrow>
                    let trimmedTitle = trim (text_of title);
                        trimmedContent = trim (text_of content)
                    in case update_post db trimmedTitle trimmedContent (p_id this) of
                         Inl e \<Rightarrow> (Inl (''Failed to update post: '' @ e), db)
                       | Inr db' \<Rightarrow>
                           (Inr (this\<lparr>p_title := trimmedTitle,
                                      p_content := trimmedContent\<rparr>), db')))"

definition Post_delete :: "database \<Rightarrow> Post \<Rightarrow> nat \<Rightarrow> (string + bool) \<times> database" where
  "Post_delete db this requestingUserId =
     (if p_authorId this \<noteq> requestingUserId
        then (Inl ''Failed to delete post: You can only delete your own posts'', db)
      else case delete_post db (p_id this) of
             Inl e \<Rightarrow> (Inl (''Failed to delete post: '' @ e), db)
           | Inr (changes, db') \<Rightarrow>
               if changes = 0
               then (Inl ''Failed to delete post: Post not found or already deleted'', db')
               else (Inr True, db'))"

definition json_of_email :: "string option \<Rightarrow> json" where
  "json_of_email e = (case e of None \<Rightarrow> JNull | Some s \<Rightarrow> JStr s)"

definition toObject :: "Post \<Rightarrow> json" where
  "toObject this =
     JObj [(''id'', JNum (int (p_id this))),
           (''title'', JStr (p_title this)),
           (''content'', JStr (p_content this)),
           (''authorId'', JNum (int (p_authorId this))),
           (''authorEmail'', json_of_email (p_authorEmail this)),
           (''createdAt'', JStr (p_createdAt this))]"

text \<open>The preview text that \<open>toSummary(maxContentLength)\<close> computes.\<close>

definition summary_of :: "string \<Rightarrow> nat \<Rightarrow> string" where
  "summary_of content maxContentLength =
     (if length content > maxContentLength
      then let truncated = substring0 content (int maxContentLength);
               lastSpace = lastIndexOf truncated CHR '' ''
           in substring0 truncated lastSpace @ ''...''
      else content)"

definition toSummary :: "Post \<Rightarrow> nat \<Rightarrow> json" where
  "toSummary this maxContentLength =
     JObj [(''id'', JNum (int (p_id this))),
           (''title'', JStr (p_title this)),
           (''content'', JStr (summary_of (p_content this) maxContentLength)),
           (''authorId'', JNum (int (p_authorId this))),
           (''authorEmail'', json_of_email (p_authorEmail this)),
           (''createdAt'', JStr (p_createdAt this))]"

section \<open>middleware/auth.js\<close>

text \<open>
  The part of an Express request the backend reads or writes: the \<open>Authorization\<close>
  header, the JSON body's fields, the route parameter \<open>id\<close>, the query parameter
  \<open>author\<close>, and the two properties the middleware attaches (\<open>req.user\<close> and
  \<open>req.userId\<close>; \<open>None\<close> is \<open>null\<close> or never set), and the
  \<open>req.postId\<close> (\<open>req_postId\<close>) that the router's check of the \<open>id\<close>
  parameter attaches. A
  body field is whatever JSON value \<open>express.json()\<close> parsed, or \<open>undefined\<close>.
  Header, route and query parameters are strings.
\<close>

record request =
  authorization :: "string option"
  body_email :: "json option"
  body_password :: "json option"
  body_title :: "json option"
  body_content :: "json option"
  params_id :: string
  query_author :: "string option"
  user :: "json option"
  userId :: "nat option"
  req_postId :: "nat option"

text \<open>
  A middleware either answers the request itself or calls \<open>next()\<close> with the
  request as it left it. Both middleware bodies are wrapped in a \<open>try\<close> whose
  \<open>catch\<close> answers or calls \<open>next()\<close>, so there is no third outcome.
\<close>

datatype outcome = Respond response | Next request

definition authenticateToken :: "env \<Rightarrow> database \<Rightarrow> request \<Rightarrow> outcome" where
  "authenticateToken env db req =
     (let authHeader = authorization req
      in if falsy authHeader \<or> \<not> startsWith (str_of authHeader) ''Bearer ''
         then Respond (error_response 401 ''Access denied. No valid token provided.''
                 ''Please include a valid JWT token in the Authorization header'')
         else let token = at_index (split_on CHR '' '' (str_of authHeader)) 1
              in if falsy token
                 then Respond (error_response 401 ''Access denied. Token format is invalid.''
                         ''Token should be provided as: Bearer <your-token>'')
                 else case jwt_verify env (str_of token) (JWT_SECRET env) no_verify_options of
                        Inl jwtError \<Rightarrow>
                          if name jwtError = ''TokenExpiredError''
                          then Respond (error_response 401 ''Token has expired''
                                  ''Please log in again to get a new token'')
                          else if name jwtError = ''JsonWebTokenError''
                          then Respond (error_response 401 ''Invalid token''
                                  ''The provided token is malformed or invalid'')
                          else Respond (error_response 401 ''Token verification failed''
                                  (message jwtError))
                      | Inr decoded \<Rightarrow>
                          (case User_findById db (c_userId decoded) of
                             Inl error \<Rightarrow>
                               Respond (error_response 500
                                 ''Internal server error during authentication''
                                 ''Please try again later'')
                           | Inr None \<Rightarrow>
                               Respond (error_response 401 ''User no longer exists''
                                 ''The account associated with this token has been removed'')
                           | Inr (Some u) \<Rightarrow>
                               Next (req\<lparr>user := Some (toSafeObject u),
                                         userId := Some (u_id u)\<rparr>)))"

definition anonymous :: "request \<Rightarrow> request" where
  "anonymous req = req\<lparr>user := None, userId := None\<rparr>"

definition optionalAuth :: "env \<Rightarrow> database \<Rightarrow> request \<Rightarrow> outcome" where
  "optionalAuth env db req =
     (let authHeader = authorization req
      in if falsy authHeader \<or> \<not> startsWith (str_of authHeader) ''Bearer ''
         then Next (anonymous req)
         else let token = at_index (split_on CHR '' '' (str_of authHeader)) 1
              in if falsy token
                 then Next (anonymous req)
                 else case jwt_verify env (str_of token) (JWT_SECRET env) no_verify_options of
                        Inl jwtError \<Rightarrow> Next (anonymous req)
                      | Inr decoded \<Rightarrow>
                          (case User_findById db (c_userId decoded) of
                             Inl error \<Rightarrow> Next (anonymous req)
                           | Inr None \<Rightarrow> Next (anonymous req)
                           | Inr (Some u) \<Rightarrow>
                               Next (req\<lparr>user := Some (toSafeObject u),
                                         userId := Some (u_id u)\<rparr>)))"

text \<open>
  \<open>generateToken(userId, expiresIn = '7d')\<close>; \<open>None\<close> is the default of seven
  days.
\<close>

definition generateToken :: "env \<Rightarrow> nat \<Rightarrow> int option \<Rightarrow> string + string" where
  "generateToken env uid expires =
     (case jwt_sign env uid (now_ms env div 1000) (JWT_SECRET env)
             \<lparr>expiresIn = (case expires of None \<Rightarrow> 604800 | Some n \<Rightarrow> n),
              issuer = ''blog-platform'',
              audience = ''blog-platform-users''\<rparr> of
        Inl e \<Rightarrow> Inl (''Failed to generate token: '' @ e)
      | Inr token \<Rightarrow> Inr token)"

definition getUserIdFromToken :: "env \<Rightarrow> string \<Rightarrow> nat option" where
  "getUserIdFromToken env token =
     (case jwt_verify env token (JWT_SECRET env) no_verify_options of
        Inl e \<Rightarrow> None
      | Inr decoded \<Rightarrow> Some (c_userId decoded))"

section \<open>controllers/authController.js\<close>

text \<open>The test \<open>/^[^\s@]+@[^\s@]+\.[^\s@]+$/.test(email)\<close>.\<close>

definition emailRegex_test :: "string \<Rightarrow> bool" where
  "emailRegex_test s =
     (case split_on CHR ''@'' s of
        [a, d] \<Rightarrow>
          a \<noteq> [] \<and> list_all (\<lambda>c. \<not> is_ws c) s \<and>
          list_ex (\<lambda>i. d ! i = CHR ''.'') [1..<length d - 1]
      | _ \<Rightarrow> False)"

text \<open>\<open>!req.userId\<close>: no id attached, or the id \<open>0\<close>.\<close>

definition no_user :: "nat option \<Rightarrow> bool" where
  "no_user v = (case v of None \<Rightarrow> True | Some n \<Rightarrow> n = 0)"

definition id_of :: "nat option \<Rightarrow> nat" where
  "id_of v = (case v of None \<Rightarrow> 0 | Some n \<Rightarrow> n)"

definition register :: "env \<Rightarrow> database \<Rightarrow> request \<Rightarrow> response \<times> database" where
  "register env db req =
     (let email = body_email req; password = body_password req
      in if js_not email \<or> js_not password
         then (error_response 400 ''Missing required fields''
                 ''Both email and password are required'', db)
         else if \<not> emailRegex_test (to_text email)
         then (error_response 400 ''Invalid email format''
                 ''Please provide a valid email address'', db)
         else if length_below password 6
         then (error_response 400 ''Password too weak''
                 ''Password must be at least 6 characters long'', db)
         else if \<not> is_string email
         then (error_response 500 ''Registration failed''
                 ''An unexpected error occurred. Please try again later.'', db)
         else let normalizedEmail = trim (toLowerCase (text_of email))
              in case User_create env db normalizedEmail password of
                   (Inl msg, db') \<Rightarrow>
                     if str_includes msg ''already exists''
                     then (error_response 409 ''Email already registered''
                             ''An account with this email already exists. Try logging in instead.'', db')
                     else (error_response 500 ''Registration failed''
                             ''An unexpected error occurred. Please try again later.'', db')
                 | (Inr None, db') \<Rightarrow>
                     (error_response 500 ''Registration failed''
                        ''An unexpected error occurred. Please try again later.'', db')
                 | (Inr (Some u), db') \<Rightarrow>
                     (case generateToken env (u_id u) None of
                        Inl msg \<Rightarrow>
                          if str_includes msg ''already exists''
                          then (error_response 409 ''Email already registered''
                                  ''An account with this email already exists. Try logging in instead.'', db')
                          else (error_response 500 ''Registration failed''
                                  ''An unexpected error occurred. Please try again later.'', db')
                      | Inr token \<Rightarrow>
                          (json_response 201
                             [(''message'', JStr ''User registered successfully''),
                              (''user'', toSafeObject u),
                              (''token'', JStr token)], db')))"

text \<open>
  \<open>login\<close>. Everything after the check for missing fields runs inside the
  handler's \<open>try\<close>: an email that is not a string makes \<open>email.toLowerCase()\<close>
  throw, a failing store makes \<open>User.findByEmail\<close> throw, a password that is not a
  string makes \<open>user.verifyPassword\<close> throw, and the \<open>catch\<close> answers each with
  500.
\<close>

definition login :: "env \<Rightarrow> database \<Rightarrow> request \<Rightarrow> response" where
  "login env db req =
     (let email = body_email req; password = body_password req
      in if js_not email \<or> js_not password
         then error_response 400 ''Missing credentials''
                ''Both email and password are required''
         else if \<not> is_string email
         then error_response 500 ''Login failed''
                ''An unexpected error occurred. Please try again later.''
         else let normalizedEmail = trim (toLowerCase (text_of email))
              in case User_findByEmail db normalizedEmail of
                   Inl msg \<Rightarrow>
                     error_response 500 ''Login failed''
                       ''An unexpected error occurred. Please try again later.''
                 | Inr None \<Rightarrow>
                     error_response 401 ''Invalid credentials''
                       ''Email or password is incorrect''
                 | Inr (Some u) \<Rightarrow>
                     (case verifyPassword env u password of
                        Inl msg \<Rightarrow>
                          error_response 500 ''Login failed''
                            ''An unexpected error occurred. Please try again later.''
                      | Inr isValidPassword \<Rightarrow>
                          if \<not> isValidPassword
                          then error_response 401 ''Invalid credentials''
                                 ''Email or password is incorrect''
                          else (case generateToken env (u_id u) None of
                                  Inl msg \<Rightarrow>
                                    error_response 500 ''Login failed''
                                      ''An unexpected error occurred. Please try again later.''
                                | Inr token \<Rightarrow>
                                    json_response 200
                                      [(''message'', JStr ''Login successful''),
                                       (''user'', toSafeObject u),
                                       (''token'', JStr token)])))"

definition getCurrentUser :: "request \<Rightarrow> response" where
  "getCurrentUser req =
     (case user req of
        None \<Rightarrow>
          error_response 401 ''Not authenticated''
            ''No valid authentication token provided''
      | Some u \<Rightarrow>
          json_response 200
            [(''message'', JStr ''User retrieved successfully''), (''user'', u)])"

definition refreshToken :: "env \<Rightarrow> request \<Rightarrow> response" where
  "refreshToken env req =
     (if no_user (userId req)
      then error_response 401 ''Authentication required''
             ''Valid token required for refresh''
      else case generateToken env (id_of (userId req)) None of
             Inl msg \<Rightarrow>
               error_response 500 ''Token refresh failed''
                 ''Unable to refresh authentication token''
           | Inr newToken \<Rightarrow>
               json_response 200
                 [(''message'', JStr ''Token refreshed successfully''),
                  (''token'', JStr newToken)])"

text \<open>\<open>router.get('/me', authenticateToken, authController.getCurrentUser)\<close>\<close>

definition route_me :: "env \<Rightarrow> database \<Rightarrow> request \<Rightarrow> response" where
  "route_me env db req =
     (case authenticateToken env db req of
        Respond r \<Rightarrow> r
      | Next req' \<Rightarrow> getCurrentUser req')"

section \<open>controllers/postController.js\<close>

text \<open>
  \<open>parseInt(id, 10)\<close> followed by \<open>isNaN(postId) || postId <= 0\<close>: the positive
  id, or \<open>None\<close> when the handler answers 400.
\<close>

definition positive_id :: "string \<Rightarrow> nat option" where
  "positive_id s =
     (case parseInt s of
        None \<Rightarrow> None
      | Some n \<Rightarrow> if n \<le> 0 then None else Some (nat n))"

definition createPost :: "database \<Rightarrow> request \<Rightarrow> response \<times> database" where
  "createPost db req =
     (let title = body_title req; content = body_content req
      in if no_user (userId req)
         then (error_response 401 ''Authentication required''
                 ''You must be logged in to create a post'', db)
         else if js_not title \<or> js_not content
         then (error_response 400 ''Missing required fields''
                 ''Both title and content are required'', db)
         else if \<not> is_string title
         then (error_response 500 ''Failed to create post''
                 ''An unexpected error occurred. Please try again later.'', db)
         else if length (trim (text_of title)) < 3
         then (error_response 400 ''Title too short''
                 ''Title must be at least 3 characters long'', db)
         else if \<not> is_string content
         then (error_response 500 ''Failed to create post''
                 ''An unexpected error occurred. Please try again later.'', db)
         else if length (trim (text_of content)) < 10
         then (error_response 400 ''Content too short''
                 ''Content must be at least 10 characters long'', db)
         else case Post_create db title content (id_of (userId req)) of
                (Inr (Some post), db') \<Rightarrow>
                  (json_response 201
                     [(''message'', JStr ''Post created successfully''),
                      (''post'', toObject post)], db')
              | (_, db') \<Rightarrow>
                  (error_response 500 ''Failed to create post''
                     ''An unexpected error occurred. Please try again later.'', db'))"



definition getPostById :: "database \<Rightarrow> request \<Rightarrow> response" where
  "getPostById db req =
     (case positive_id (params_id req) of
        None \<Rightarrow>
          error_response 400 ''Invalid post ID'' ''Post ID must be a positive number''
      | Some postId \<Rightarrow>
          (case Post_findById db postId of
             Inl msg \<Rightarrow>
               error_response 500 ''Failed to retrieve post''
                 ''An unexpected error occurred. Please try again later.''
           | Inr None \<Rightarrow>
               error_response 404 ''Post not found''
                 (''No post found with ID '' @ show_nat postId)
           | Inr (Some post) \<Rightarrow>
               json_response 200
                 [(''message'', JStr ''Post retrieved successfully''),
                  (''post'', toObject post)]))"

text \<open>The \<open>catch\<close> of \<open>updatePost\<close>, on the message of the error caught.\<close>

definition updatePost_catch :: "string \<Rightarrow> response" where
  "updatePost_catch msg =
     (if str_includes msg ''only edit your own posts''
      then error_response 403 ''Permission denied'' ''You can only edit your own posts''
      else error_response 500 ''Failed to update post''
             ''An unexpected error occurred. Please try again later.'')"

definition updatePost :: "database \<Rightarrow> request \<Rightarrow> response \<times> database" where
  "updatePost db req =
     (let title = body_title req; content = body_content req
      in if no_user (userId req)
         then (error_response 401 ''Authentication required''
                 ''You must be logged in to update a post'', db)
         else case positive_id (params_id req) of
                None \<Rightarrow>
                  (error_response 400 ''Invalid post ID''
                     ''Post ID must be a positive number'', db)
              | Some postId \<Rightarrow>
                  if js_not title \<or> js_not content
                  then (error_response 400 ''Missing required fields''
                          ''Both title and content are required'', db)
                  else (case Post_findById db postId of
                          Inl msg \<Rightarrow> (updatePost_catch msg, db)
                        | Inr None \<Rightarrow>
                            (error_response 404 ''Post not found''
                               (''No post found with ID '' @ show_nat postId), db)
                        | Inr (Some post) \<Rightarrow>
                            (case Post_update db post title content (id_of (userId req)) of
                               (Inl msg, db') \<Rightarrow> (updatePost_catch msg, db')
                             | (Inr updatedPost, db') \<Rightarrow>
                                 (json_response 200
                                    [(''message'', JStr ''Post updated successfully''),
                                     (''post'', toObject updatedPost)], db'))))"

definition deletePost_catch :: "string \<Rightarrow> response" where
  "deletePost_catch msg =
     (if str_includes msg ''only delete your own posts''
      then error_response 403 ''Permission denied'' ''You can only delete your own posts''
      else error_response 500 ''Failed to delete post''
             ''An unexpected error occurred. Please try again later.'')"

definition deletePost :: "database \<Rightarrow> request \<Rightarrow> response \<times> database" where
  "deletePost db req =
     (if no_user (userId req)
      then (error_response 401 ''Authentication required''
              ''You must be logged in to delete a post'', db)
      else case positive_id (params_id req) of
             None \<Rightarrow>
               (error_response 400 ''Invalid post ID''
                  ''Post ID must be a positive number'', db)
           | Some postId \<Rightarrow>
               (case Post_findById db postId of
                  Inl msg \<Rightarrow> (deletePost_catch msg, db)
                | Inr None \<Rightarrow>
                    (error_response 404 ''Post not found''
                       (''No post found with ID '' @ show_nat postId), db)
                | Inr (Some post) \<Rightarrow>
                    (case Post_delete db post (id_of (userId req)) of
                       (Inl msg, db') \<Rightarrow> (deletePost_catch msg, db')
                     | (Inr ok, db') \<Rightarrow> (\<lparr>status = 204, body = None\<rparr>, db'))))"

definition getMyPosts :: "database \<Rightarrow> request \<Rightarrow> response" where
  "getMyPosts db req =
     (if no_user (userId req)
      then error_response 401 ''Authentication required''
             ''You must be logged in to view your posts''
      else case Post_findByAuthor db (userId req) of
             Inl msg \<Rightarrow>
               error_response 500 ''Failed to retrieve your posts''
                 ''An unexpected error occurred. Please try again later.''
           | Inr ps \<Rightarrow>
               json_response 200
                 [(''message'', JStr ''Your posts retrieved successfully''),
                  (''posts'', JArr (map (\<lambda>post. toSummary post 200) ps)),
                  (''count'', JNum (int (length ps)))])"

text \<open>
  \<open>routes/posts.js\<close>. \<open>router.param('id', ...)\<close> runs for every route with an
  \<open>:id\<close>, before that route's middleware: it answers 400 for an id that is not a
  positive number and attaches \<open>req.postId\<close> otherwise. The protected routes then
  run \<open>authenticateToken\<close> before the handler.
\<close>

definition param_id :: "request \<Rightarrow> outcome" where
  "param_id req =
     (case positive_id (params_id req) of
        None \<Rightarrow>
          Respond (error_response 400 ''Invalid post ID''
                     ''Post ID must be a positive number'')
      | Some i \<Rightarrow> Next (req\<lparr>req_postId := Some i\<rparr>))"

definition route_createPost :: "env \<Rightarrow> database \<Rightarrow> request \<Rightarrow> response \<times> database" where
  "route_createPost env db req =
     (case authenticateToken env db req of
        Respond r \<Rightarrow> (r, db)
      | Next req' \<Rightarrow> createPost db req')"

definition route_getPostById :: "database \<Rightarrow> request \<Rightarrow> response" where
  "route_getPostById db req =
     (case param_id req of
        Respond r \<Rightarrow> r
      | Next req' \<Rightarrow> getPostById db req')"

definition route_updatePost :: "env \<Rightarrow> database \<Rightarrow> request \<Rightarrow> response \<times> database" where
  "route_updatePost env db req =
     (case param_id req of
        Respond r \<Rightarrow> (r, db)
      | Next req1 \<Rightarrow>
          (case authenticateToken env db req1 of
             Respond r \<Rightarrow> (r, db)
           | Next req' \<Rightarrow> updatePost db req'))"

definition route_deletePost :: "env \<Rightarrow> database \<Rightarrow> request \<Rightarrow> response \<times> database" where
  "route_deletePost env db req =
     (case param_id req of
        Respond r \<Rightarrow> (r, db)
      | Next req1 \<Rightarrow>
          (case authenticateToken env db req1 of
             Respond r \<Rightarrow> (r, db)
           | Next req' \<Rightarrow> deletePost db req'))"

definition route_getMyPosts :: "env \<Rightarrow> database \<Rightarrow> request \<Rightarrow> response" where
  "route_getMyPosts env db req =
     (case authenticateToken env db req of
        Respond r \<Rightarrow> r
      | Next req' \<Rightarrow> getMyPosts db req')"

section \<open>Properties: auxiliary notions and sample data\<close>

text \<open>What identifies a post and never changes: id, owner and creation time, row by row.\<close>

definition post_identity :: "database \<Rightarrow> (nat \<times> nat \<times> string) list" where
  "post_identity db = map (\<lambda>r. (r_id r, r_authorId r, r_createdAt r)) (posts db)"

text \<open>A sequence of \<open>PUT /posts/:id\<close> requests, each served on the store the last left.\<close>

fun run_updates :: "env \<Rightarrow> database \<Rightarrow> request list \<Rightarrow> database" where
  "run_updates env db [] = db"
| "run_updates env db (req # reqs) = run_updates env (snd (route_updatePost env db req)) reqs"

text \<open>
  The bearer value of a request, as both middleware extract it: the text between the
  first and the second space of a header that starts with \<open>Bearer \<close>, when that text
  is not empty.
\<close>

definition bearer_value :: "request \<Rightarrow> string option" where
  "bearer_value req =
     (if falsy (authorization req) \<or> \<not> startsWith (str_of (authorization req)) ''Bearer ''
      then None
      else if falsy (at_index (split_on CHR '' '' (str_of (authorization req))) 1) then None
      else at_index (split_on CHR '' '' (str_of (authorization req))) 1)"

text \<open>
  Sample data: two registered users, one post of the first, and an environment whose
  clock stands at 1700000000 seconds. Five token texts decode: one issued by
  \<open>generateToken\<close> for user 1, one signed with the same secret by another issuer for
  another audience, one that expired a second ago, one signed with another secret, and
  one whose user is not in the store.
\<close>

definition alice :: user_row where
  "alice = \<lparr>u_id = 1, u_email = ''a@x.com'', u_passwordHash = ''$2a$12$1terces'',
            u_createdAt = ''2023-11-01 10:00:00''\<rparr>"

definition bob :: user_row where
  "bob = \<lparr>u_id = 2, u_email = ''b@x.com'', u_passwordHash = ''$2a$12$2terces'',
          u_createdAt = ''2023-11-02 10:00:00''\<rparr>"

definition hi_there :: post_row where
  "hi_there = \<lparr>r_id = 1, r_title = ''Hi There'', r_content = ''This is long enough'',
               r_authorId = 1, r_createdAt = ''2023-11-03 09:00:00''\<rparr>"

definition sample_db :: database where
  "sample_db = \<lparr>users = [alice, bob], posts = [hi_there], users_seq = 2, posts_seq = 1,
                current_timestamp = ''2023-11-14 22:13:20'', fault = None\<rparr>"

definition issued_token :: jws where
  "issued_token = \<lparr>sig_key = ''s3cret'', c_userId = 1, c_iat = 1700000000, c_nbf = None,
                   c_exp = Some 1700604800, c_iss = Some ''blog-platform'',
                   c_aud = Some ''blog-platform-users''\<rparr>"

definition foreign_token :: jws where
  "foreign_token = \<lparr>sig_key = ''s3cret'', c_userId = 1, c_iat = 1700000000, c_nbf = None,
                    c_exp = Some 1700604800, c_iss = Some ''another-service'',
                    c_aud = Some ''another-audience''\<rparr>"

definition stale_token :: jws where
  "stale_token = \<lparr>sig_key = ''s3cret'', c_userId = 1, c_iat = 1699395199, c_nbf = None,
                  c_exp = Some 1699999999, c_iss = Some ''blog-platform'',
                  c_aud = Some ''blog-platform-users''\<rparr>"

definition forged_token :: jws where
  "forged_token = \<lparr>sig_key = ''guess'', c_userId = 1, c_iat = 1700000000, c_nbf = None,
                   c_exp = Some 1700604800, c_iss = Some ''blog-platform'',
                   c_aud = Some ''blog-platform-users''\<rparr>"

definition orphan_token :: jws where
  "orphan_token = \<lparr>sig_key = ''s3cret'', c_userId = 99, c_iat = 1700000000, c_nbf = None,
                   c_exp = Some 1700604800, c_iss = Some ''blog-platform'',
                   c_aud = Some ''blog-platform-users''\<rparr>"

definition sample_decode :: "string \<Rightarrow> jws option" where
  "sample_decode s =
     (if s = ''issued.jwt'' then Some issued_token
      else if s = ''foreign.jwt'' then Some foreign_token
      else if s = ''stale.jwt'' then Some stale_token
      else if s = ''forged.jwt'' then Some forged_token
      else if s = ''orphan.jwt'' then Some orphan_token
      else None)"

definition sample_encode :: "jws \<Rightarrow> string" where
  "sample_encode t = (if c_userId t = 1 then ''issued.jwt'' else ''fresh.jwt'')"

definition sample_env :: env where
  "sample_env = \<lparr>JWT_SECRET = Some ''s3cret'', now_ms = 1700000000123,
                 jwt_encode = sample_encode, jwt_decode = sample_decode,
                 bcrypt_hash = (\<lambda>p. ''$2a$12$'' @ rev p),
                 bcrypt_compare = (\<lambda>p h. h = ''$2a$12$'' @ rev p)\<rparr>"

definition blank_request :: request where
  "blank_request = \<lparr>authorization = None, body_email = None, body_password = None,
                    body_title = None, body_content = None, params_id = [],
                    query_author = None, user = None, userId = None, req_postId = None\<rparr>"

definition with_bearer :: "string \<Rightarrow> request" where
  "with_bearer t = blank_request\<lparr>authorization := Some (''Bearer '' @ t)\<rparr>"


text \<open>A field of a response's JSON body, and the keys that occur anywhere in the body.\<close>

definition body_field :: "string \<Rightarrow> response \<Rightarrow> json option" where
  "body_field k r = (case body r of None \<Rightarrow> None | Some j \<Rightarrow> field k j)"

definition body_keys :: "response \<Rightarrow> string list" where
  "body_keys r = (case body r of None \<Rightarrow> [] | Some j \<Rightarrow> keys_of j)"

text \<open>A login attempt, and a store in which the first sample user never registered.\<close>

definition login_attempt :: "string \<Rightarrow> string \<Rightarrow> request" where
  "login_attempt e p =
     blank_request\<lparr>body_email := Some (JStr e), body_password := Some (JStr p)\<rparr>"

definition without_alice :: database where
  "without_alice = sample_db\<lparr>users := [bob]\<rparr>"

text \<open>A login attempt whose password is the JSON number \<open>123456\<close>.\<close>

definition number_password_attempt :: request where
  "number_password_attempt =
     blank_request\<lparr>body_email := Some (JStr ''a@x.com''), body_password := Some (JNum 123456)\<rparr>"





text \<open>
  A request of the first sample user, for post 1, with a two-character title and a
  five-character content.
\<close>

definition short_texts_request :: request where
  "short_texts_request =
     (with_bearer ''issued.jwt'')\<lparr>params_id := ''1'', body_title := Some (JStr ''ab''),
        body_content := Some (JStr ''short'')\<rparr>"

section \<open>Ownership gate and frame of \<open>Post.update\<close> and \<open>Post.delete\<close>\<close>

lemma update_post_row_identity:
  "r_id (update_post_row t c i r) = r_id r \<and>
   r_authorId (update_post_row t c i r) = r_authorId r \<and>
   r_createdAt (update_post_row t c i r) = r_createdAt r"
  by (simp add: update_post_row_def)

lemma update_post_identity:
  "update_post db t c i = Inr db' \<Longrightarrow>
     post_identity db' = post_identity db \<and> users db' = users db"
  by (auto simp: update_post_def post_identity_def update_post_row_identity
           split: option.splits)

lemma Post_update_identity:
  "post_identity (snd (Post_update db this t c u)) = post_identity db \<and>
   users (snd (Post_update db this t c u)) = users db"
  by (auto simp: Post_update_def Let_def dest: update_post_identity
           split: sum.splits bool.splits)

lemma updatePost_identity:
  "post_identity (snd (updatePost db req)) = post_identity db \<and>
   users (snd (updatePost db req)) = users db"
  using Post_update_identity
  apply (auto simp: updatePost_def Let_def split: sum.splits option.splits prod.splits)
   apply (metis snd_conv)+
  done

lemma route_updatePost_identity:
  "post_identity (snd (route_updatePost env db req)) = post_identity db"
  by (simp add: route_updatePost_def updatePost_identity split: outcome.splits)

lemma run_updates_identity:
  "post_identity (run_updates env db reqs) = post_identity db"
  by (induction reqs arbitrary: db) (simp_all add: route_updatePost_identity)

lemma forbidden_messages_caught:
  "updatePost_catch ''Failed to update post: You can only edit your own posts'' =
     error_response 403 ''Permission denied'' ''You can only edit your own posts''"
  "deletePost_catch ''Failed to delete post: You can only delete your own posts'' =
     error_response 403 ''Permission denied'' ''You can only delete your own posts''"
  by (simp_all add: updatePost_catch_def deletePost_catch_def startsWith_def)

text \<open>
  Claim C2. For a post owned by \<open>A\<close> and a requesting identity \<open>B \<noteq> A\<close>,
  \<open>post.update(title, content, B)\<close> and \<open>post.delete(B)\<close> fail with the ownership
  error, whatever the title and content are, and the store is returned exactly as it
  was (so title, content and owner of every post are unchanged). The handlers'
  \<open>catch\<close> turns exactly these two errors into status 403, which is neither the 404
  of a missing post, nor the 401 of a missing identity, nor the 500 that the error of a
  delete that removed no row gets.
\<close>

theorem C2_non_owner_forbidden:
  "p_authorId this \<noteq> requestingUserId \<Longrightarrow>
     Post_update db this title content requestingUserId =
       (Inl ''Failed to update post: You can only edit your own posts'', db) \<and>
     Post_delete db this requestingUserId =
       (Inl ''Failed to delete post: You can only delete your own posts'', db) \<and>
     status (updatePost_catch ''Failed to update post: You can only edit your own posts'') = 403 \<and>
     status (deletePost_catch ''Failed to delete post: You can only delete your own posts'') = 403 \<and>
     status (deletePost_catch ''Failed to delete post: Post not found or already deleted'') = 500"
  by (simp add: Post_update_def Post_delete_def forbidden_messages_caught
        error_response_def json_response_def)
    (simp add: deletePost_catch_def startsWith_def error_response_def json_response_def)

theorem C2_non_owner_forbidden_witness:
  "p_authorId (join_author sample_db hi_there) = 1 \<and>
   Post_update sample_db (join_author sample_db hi_there)
       (Some (JStr ''Mine now'')) (Some (JStr ''Taken over by user two'')) 2 =
     (Inl ''Failed to update post: You can only edit your own posts'', sample_db) \<and>
   Post_delete sample_db (join_author sample_db hi_there) 2 =
     (Inl ''Failed to delete post: You can only delete your own posts'', sample_db)"
proof -
  have owner: "p_authorId (join_author sample_db hi_there) = 1"
    by (simp add: join_author_def hi_there_def)
  then have "p_authorId (join_author sample_db hi_there) \<noteq> 2"
    by simp
  from C2_non_owner_forbidden [OF this, of sample_db "Some (JStr ''Mine now'')"
      "Some (JStr ''Taken over by user two'')"]
  show ?thesis using owner by simp
qed

text \<open>
  At the HTTP handlers the same gate answers 403 and leaves the store alone; for
  \<open>updatePost\<close> this is after the handler's own check that title and content are
  present, which answers 400 before the post is loaded.
\<close>

lemma deletePost_non_owner:
  "\<not> no_user (userId req) \<Longrightarrow> positive_id (params_id req) = Some i \<Longrightarrow>
   Post_findById db i = Inr (Some post) \<Longrightarrow> p_authorId post \<noteq> id_of (userId req) \<Longrightarrow>
   deletePost db req =
     (error_response 403 ''Permission denied'' ''You can only delete your own posts'', db)"
  by (simp add: deletePost_def Post_delete_def forbidden_messages_caught)

lemma updatePost_non_owner:
  "\<not> no_user (userId req) \<Longrightarrow> positive_id (params_id req) = Some i \<Longrightarrow>
   \<not> js_not (body_title req) \<Longrightarrow> \<not> js_not (body_content req) \<Longrightarrow>
   Post_findById db i = Inr (Some post) \<Longrightarrow> p_authorId post \<noteq> id_of (userId req) \<Longrightarrow>
   updatePost db req =
     (error_response 403 ''Permission denied'' ''You can only edit your own posts'', db)"
  by (simp add: updatePost_def Post_update_def forbidden_messages_caught)

text \<open>
  Claim C6. A successful \<open>post.update\<close> returns the object with the trimmed title
  and content (both were strings, or the update would have thrown) and with its id,
  owner, creation time and author email as before, and in
  the store the id, owner and creation time of every row are as before. Whatever
  sequence of \<open>PUT /posts/:id\<close> requests is served, by whomever, the id, owner and
  creation time of every row stay what they were.
\<close>

theorem C6_update_changes_only_title_and_content:
  "(Post_update db this title content requestingUserId = (Inr this', db') \<longrightarrow>
      p_id this' = p_id this \<and> p_authorId this' = p_authorId this \<and>
      p_createdAt this' = p_createdAt this \<and> p_authorEmail this' = p_authorEmail this \<and>
      p_title this' = trim (text_of title) \<and> p_content this' = trim (text_of content) \<and>
      is_string title \<and> is_string content \<and>
      post_identity db' = post_identity db \<and> users db' = users db) \<and>
   post_identity (run_updates env db reqs) = post_identity db"
proof (intro conjI impI)
  assume ok: "Post_update db this title content requestingUserId = (Inr this', db')"
  then have this': "this' = this\<lparr>p_title := trim (text_of title),
                                   p_content := trim (text_of content)\<rparr>"
    and strings: "is_string title" "is_string content"
    by (auto simp: Post_update_def Let_def blank_def split: if_splits sum.splits bool.splits)
  show "p_id this' = p_id this" "p_authorId this' = p_authorId this"
    "p_createdAt this' = p_createdAt this" "p_authorEmail this' = p_authorEmail this"
    "p_title this' = trim (text_of title)" "p_content this' = trim (text_of content)"
    by (simp_all add: this')
  show "is_string title" "is_string content"
    by (rule strings)+
  from Post_update_identity [of db this title content requestingUserId] ok
  show "post_identity db' = post_identity db" "users db' = users db"
    by simp_all
next
  show "post_identity (run_updates env db reqs) = post_identity db"
    by (rule run_updates_identity)
qed

theorem C6_update_changes_only_title_and_content_witness:
  "Post_update sample_db (join_author sample_db hi_there)
     (Some (JStr ''  Hello again '')) (Some (JStr ''A longer text, edited.'')) 1 =
     (Inr ((join_author sample_db hi_there)
             \<lparr>p_title := ''Hello again'', p_content := ''A longer text, edited.''\<rparr>),
      sample_db\<lparr>posts := [hi_there\<lparr>r_title := ''Hello again'',
                                       r_content := ''A longer text, edited.''\<rparr>]\<rparr>) \<and>
   p_authorId ((join_author sample_db hi_there)
             \<lparr>p_title := ''Hello again'', p_content := ''A longer text, edited.''\<rparr>) = 1 \<and>
   post_identity (sample_db\<lparr>posts := [hi_there\<lparr>r_title := ''Hello again'',
                                       r_content := ''A longer text, edited.''\<rparr>]\<rparr>) =
     [(1, 1, ''2023-11-03 09:00:00'')] \<and>
   post_identity (run_updates sample_env sample_db
     [(with_bearer ''issued.jwt'')\<lparr>params_id := ''1'', body_title := Some (JStr ''ab''),
        body_content := Some (JStr ''short'')\<rparr>]) = [(1, 1, ''2023-11-03 09:00:00'')]"
proof -
  have ok: "Post_update sample_db (join_author sample_db hi_there)
     (Some (JStr ''  Hello again '')) (Some (JStr ''A longer text, edited.'')) 1 =
     (Inr ((join_author sample_db hi_there)
             \<lparr>p_title := ''Hello again'', p_content := ''A longer text, edited.''\<rparr>),
      sample_db\<lparr>posts := [hi_there\<lparr>r_title := ''Hello again'',
                                       r_content := ''A longer text, edited.''\<rparr>]\<rparr>)"
    by code_simp
  have before: "post_identity sample_db = [(1, 1, ''2023-11-03 09:00:00'')]"
    by (simp add: post_identity_def sample_db_def hi_there_def)
  have owner: "p_authorId (join_author sample_db hi_there) = 1"
    by (simp add: join_author_def hi_there_def)
  note C6 = C6_update_changes_only_title_and_content
    [of sample_db "join_author sample_db hi_there" "Some (JStr ''  Hello again '')"
      "Some (JStr ''A longer text, edited.'')" 1
      "(join_author sample_db hi_there)
             \<lparr>p_title := ''Hello again'', p_content := ''A longer text, edited.''\<rparr>"
      "sample_db\<lparr>posts := [hi_there\<lparr>r_title := ''Hello again'',
                                       r_content := ''A longer text, edited.''\<rparr>]\<rparr>"
      sample_env
      "[(with_bearer ''issued.jwt'')\<lparr>params_id := ''1'', body_title := Some (JStr ''ab''),
        body_content := Some (JStr ''short'')\<rparr>]"]
  from C6 ok have frame: "p_authorId ((join_author sample_db hi_there)
             \<lparr>p_title := ''Hello again'', p_content := ''A longer text, edited.''\<rparr>) =
        p_authorId (join_author sample_db hi_there)"
    and stored: "post_identity (sample_db\<lparr>posts := [hi_there\<lparr>r_title := ''Hello again'',
                                       r_content := ''A longer text, edited.''\<rparr>]\<rparr>) =
        post_identity sample_db"
    and seq: "post_identity (run_updates sample_env sample_db
     [(with_bearer ''issued.jwt'')\<lparr>params_id := ''1'', body_title := Some (JStr ''ab''),
        body_content := Some (JStr ''short'')\<rparr>]) = post_identity sample_db"
    by blast+
  show ?thesis
    unfolding frame stored seq before owner using ok by blast
qed

section \<open>Identity resolution\<close>

text \<open>
  Both middleware first extract the bearer value and then run the same three steps on
  it: \<open>jwt.verify\<close>, \<open>User.findById\<close>, attach.
\<close>

lemma bearer_none:
  "bearer_value req = None \<Longrightarrow>
   authenticateToken env db req =
     (if falsy (authorization req) \<or> \<not> startsWith (str_of (authorization req)) ''Bearer ''
      then Respond (error_response 401 ''Access denied. No valid token provided.''
                 ''Please include a valid JWT token in the Authorization header'')
      else Respond (error_response 401 ''Access denied. Token format is invalid.''
                         ''Token should be provided as: Bearer <your-token>''))"
  by (auto simp: bearer_value_def authenticateToken_def Let_def falsy_def split: if_splits option.splits)

lemma bearer_some:
  "bearer_value req = Some tok \<Longrightarrow>
   authenticateToken env db req =
     (case jwt_verify env tok (JWT_SECRET env) no_verify_options of
        Inl jwtError \<Rightarrow>
          if name jwtError = ''TokenExpiredError''
          then Respond (error_response 401 ''Token has expired''
                  ''Please log in again to get a new token'')
          else if name jwtError = ''JsonWebTokenError''
          then Respond (error_response 401 ''Invalid token''
                  ''The provided token is malformed or invalid'')
          else Respond (error_response 401 ''Token verification failed'' (message jwtError))
      | Inr decoded \<Rightarrow>
          (case User_findById db (c_userId decoded) of
             Inl error \<Rightarrow>
               Respond (error_response 500 ''Internal server error during authentication''
                 ''Please try again later'')
           | Inr None \<Rightarrow>
               Respond (error_response 401 ''User no longer exists''
                 ''The account associated with this token has been removed'')
           | Inr (Some u) \<Rightarrow>
               Next (req\<lparr>user := Some (toSafeObject u), userId := Some (u_id u)\<rparr>)))"
  by (auto simp: bearer_value_def authenticateToken_def Let_def str_of_def split: if_splits option.splits)

lemma optional_bearer_none:
  "bearer_value req = None \<Longrightarrow> optionalAuth env db req = Next (anonymous req)"
  by (auto simp: bearer_value_def optionalAuth_def Let_def falsy_def split: if_splits option.splits)

lemma optional_bearer_some:
  "bearer_value req = Some tok \<Longrightarrow>
   optionalAuth env db req =
     (case jwt_verify env tok (JWT_SECRET env) no_verify_options of
        Inl jwtError \<Rightarrow> Next (anonymous req)
      | Inr decoded \<Rightarrow>
          (case User_findById db (c_userId decoded) of
             Inl error \<Rightarrow> Next (anonymous req)
           | Inr None \<Rightarrow> Next (anonymous req)
           | Inr (Some u) \<Rightarrow>
               Next (req\<lparr>user := Some (toSafeObject u), userId := Some (u_id u)\<rparr>)))"
  by (auto simp: bearer_value_def optionalAuth_def Let_def str_of_def split: if_splits option.splits)

lemma jwt_verify_Inr:
  "jwt_verify env tok secret opts = Inr t \<Longrightarrow>
     jwt_decode env tok = Some t \<and> secret = Some (sig_key t) \<and> sig_key t \<noteq> [] \<and>
     \<not> not_before t (now_ms env div 1000) \<and> \<not> expired t (now_ms env div 1000) \<and>
     \<not> claim_mismatch (expect_audience opts) (c_aud t) \<and>
     \<not> claim_mismatch (expect_issuer opts) (c_iss t)"
  by (auto simp: jwt_verify_def Let_def split: option.splits if_splits)

lemma authenticateToken_Next:
  assumes "authenticateToken env db req = Next req'"
  shows "\<exists>tok t u. bearer_value req = Some tok \<and>
           jwt_verify env tok (JWT_SECRET env) no_verify_options = Inr t \<and>
           User_findById db (c_userId t) = Inr (Some u) \<and>
           req' = req\<lparr>user := Some (toSafeObject u), userId := Some (u_id u)\<rparr>"
proof -
  from assms obtain tok where tok: "bearer_value req = Some tok"
    by (cases "bearer_value req") (auto simp: bearer_none split: if_splits)
  with assms obtain t where t: "jwt_verify env tok (JWT_SECRET env) no_verify_options = Inr t"
    by (cases "jwt_verify env tok (JWT_SECRET env) no_verify_options")
       (auto simp: bearer_some split: if_splits)
  with assms tok obtain u where "User_findById db (c_userId t) = Inr (Some u)"
    and "req' = req\<lparr>user := Some (toSafeObject u), userId := Some (u_id u)\<rparr>"
    by (auto simp: bearer_some split: sum.splits option.splits)
  with tok t show ?thesis by blast
qed

lemma optionalAuth_identified:
  assumes "optionalAuth env db req = Next req'" and "req' \<noteq> anonymous req"
  shows "\<exists>tok t u. bearer_value req = Some tok \<and>
           jwt_verify env tok (JWT_SECRET env) no_verify_options = Inr t \<and>
           User_findById db (c_userId t) = Inr (Some u) \<and>
           req' = req\<lparr>user := Some (toSafeObject u), userId := Some (u_id u)\<rparr>"
proof -
  from assms obtain tok where tok: "bearer_value req = Some tok"
    by (cases "bearer_value req") (auto simp: optional_bearer_none)
  with assms obtain t where t: "jwt_verify env tok (JWT_SECRET env) no_verify_options = Inr t"
    by (cases "jwt_verify env tok (JWT_SECRET env) no_verify_options")
       (auto simp: optional_bearer_some)
  with assms tok obtain u where "User_findById db (c_userId t) = Inr (Some u)"
    and "req' = req\<lparr>user := Some (toSafeObject u), userId := Some (u_id u)\<rparr>"
    by (auto simp: optional_bearer_some split: sum.splits option.splits)
  with tok t show ?thesis by blast
qed

lemma sample_bearer:
  "bearer_value blank_request = None"
  "bearer_value (with_bearer ''stale.jwt'') = Some ''stale.jwt''"
  "bearer_value (with_bearer ''forged.jwt'') = Some ''forged.jwt''"
  "bearer_value (with_bearer ''orphan.jwt'') = Some ''orphan.jwt''"
  "bearer_value (with_bearer ''issued.jwt'') = Some ''issued.jwt''"
  "bearer_value (with_bearer ''foreign.jwt'') = Some ''foreign.jwt''"
  by code_simp+

lemma sample_verify:
  "jwt_verify sample_env ''stale.jwt'' (JWT_SECRET sample_env) no_verify_options =
     Inl \<lparr>name = ''TokenExpiredError'', message = ''jwt expired''\<rparr>"
  "jwt_verify sample_env ''forged.jwt'' (JWT_SECRET sample_env) no_verify_options =
     Inl \<lparr>name = ''JsonWebTokenError'', message = ''invalid signature''\<rparr>"
  "jwt_verify sample_env ''orphan.jwt'' (JWT_SECRET sample_env) no_verify_options = Inr orphan_token"
  "jwt_verify sample_env ''issued.jwt'' (JWT_SECRET sample_env) no_verify_options = Inr issued_token"
  "jwt_verify sample_env ''foreign.jwt'' (JWT_SECRET sample_env) no_verify_options = Inr foreign_token"
  by code_simp+

lemma sample_users:
  "User_findById sample_db (c_userId orphan_token) = Inr None"
  "User_findById sample_db (c_userId issued_token) = Inr (Some alice)"
  "User_findById sample_db (c_userId foreign_token) = Inr (Some alice)"
  by code_simp+

text \<open>
  Claim C3. Mandatory-mode resolution, case by case: (1) no bearer value: 401,
  ``Access denied'' (with one of two details, for a header that is absent or not a
  \<open>Bearer\<close> header, and for a \<open>Bearer\<close> header with an empty value); (2) the
  verification fails with \<open>TokenExpiredError\<close>: 401 ``Token has expired''; (3) it
  fails with \<open>JsonWebTokenError\<close> (malformed, or signature invalid): 401 ``Invalid
  token''; (4) the token verifies and \<open>User.findById\<close> finds nobody: 401 ``User no
  longer exists''; (5) the token verifies and the user is found: the safe view and the
  id are attached and the handler runs. The handler runs in case (5) only. The code has
  two more rejecting branches, outside the five cases: a verification error of another
  name (401, ``Token verification failed'') and a failing store (500).
\<close>

theorem C3_mandatory_resolution_cases:
  "(bearer_value req = None \<longrightarrow>
      authenticateToken env db req =
        Respond (error_response 401 ''Access denied. No valid token provided.''
                 ''Please include a valid JWT token in the Authorization header'') \<or>
      authenticateToken env db req =
        Respond (error_response 401 ''Access denied. Token format is invalid.''
                 ''Token should be provided as: Bearer <your-token>'')) \<and>
   (bearer_value req = Some tok \<and>
    jwt_verify env tok (JWT_SECRET env) no_verify_options = Inl e \<and>
    name e = ''TokenExpiredError'' \<longrightarrow>
      authenticateToken env db req =
        Respond (error_response 401 ''Token has expired''
                  ''Please log in again to get a new token'')) \<and>
   (bearer_value req = Some tok \<and>
    jwt_verify env tok (JWT_SECRET env) no_verify_options = Inl e \<and>
    name e = ''JsonWebTokenError'' \<longrightarrow>
      authenticateToken env db req =
        Respond (error_response 401 ''Invalid token''
                  ''The provided token is malformed or invalid'')) \<and>
   (bearer_value req = Some tok \<and>
    jwt_verify env tok (JWT_SECRET env) no_verify_options = Inr t \<and>
    User_findById db (c_userId t) = Inr None \<longrightarrow>
      authenticateToken env db req =
        Respond (error_response 401 ''User no longer exists''
                 ''The account associated with this token has been removed'')) \<and>
   (bearer_value req = Some tok \<and>
    jwt_verify env tok (JWT_SECRET env) no_verify_options = Inr t \<and>
    User_findById db (c_userId t) = Inr (Some u) \<longrightarrow>
      authenticateToken env db req =
        Next (req\<lparr>user := Some (toSafeObject u), userId := Some (u_id u)\<rparr>)) \<and>
   (authenticateToken env db req = Next req' \<longrightarrow>
      (\<exists>tok' t' u'. bearer_value req = Some tok' \<and>
         jwt_verify env tok' (JWT_SECRET env) no_verify_options = Inr t' \<and>
         User_findById db (c_userId t') = Inr (Some u') \<and>
         req' = req\<lparr>user := Some (toSafeObject u'), userId := Some (u_id u')\<rparr>))"
proof (intro conjI impI)
  assume "authenticateToken env db req = Next req'"
  then show "\<exists>tok' t' u'. bearer_value req = Some tok' \<and>
         jwt_verify env tok' (JWT_SECRET env) no_verify_options = Inr t' \<and>
         User_findById db (c_userId t') = Inr (Some u') \<and>
         req' = req\<lparr>user := Some (toSafeObject u'), userId := Some (u_id u')\<rparr>"
    by (rule authenticateToken_Next)
qed (simp_all add: bearer_none bearer_some)

theorem C3_mandatory_resolution_cases_witness:
  "authenticateToken sample_env sample_db blank_request =
     Respond (error_response 401 ''Access denied. No valid token provided.''
                 ''Please include a valid JWT token in the Authorization header'') \<and>
   authenticateToken sample_env sample_db (with_bearer ''stale.jwt'') =
     Respond (error_response 401 ''Token has expired'' ''Please log in again to get a new token'') \<and>
   authenticateToken sample_env sample_db (with_bearer ''forged.jwt'') =
     Respond (error_response 401 ''Invalid token'' ''The provided token is malformed or invalid'') \<and>
   authenticateToken sample_env sample_db (with_bearer ''orphan.jwt'') =
     Respond (error_response 401 ''User no longer exists''
                 ''The account associated with this token has been removed'') \<and>
   authenticateToken sample_env sample_db (with_bearer ''issued.jwt'') =
     Next ((with_bearer ''issued.jwt'')\<lparr>user := Some (toSafeObject alice), userId := Some (u_id alice)\<rparr>)"
proof -
  note C3 = C3_mandatory_resolution_cases
  have first: "authenticateToken sample_env sample_db blank_request \<noteq>
      Respond (error_response 401 ''Access denied. Token format is invalid.''
                 ''Token should be provided as: Bearer <your-token>'')"
    by code_simp
  have n1: "name \<lparr>name = ''TokenExpiredError'', message = ''jwt expired''\<rparr> = ''TokenExpiredError''"
    and n2: "name \<lparr>name = ''JsonWebTokenError'', message = ''invalid signature''\<rparr> = ''JsonWebTokenError''"
    by simp_all
  from C3 [of blank_request sample_env sample_db] sample_bearer(1) first
  have 1: "authenticateToken sample_env sample_db blank_request =
     Respond (error_response 401 ''Access denied. No valid token provided.''
                 ''Please include a valid JWT token in the Authorization header'')"
    by blast
  from C3 [of "with_bearer ''stale.jwt''" sample_env sample_db "''stale.jwt''"
      "\<lparr>name = ''TokenExpiredError'', message = ''jwt expired''\<rparr>"]
    sample_bearer(2) sample_verify(1) n1
  have 2: "authenticateToken sample_env sample_db (with_bearer ''stale.jwt'') =
     Respond (error_response 401 ''Token has expired'' ''Please log in again to get a new token'')"
    by blast
  from C3 [of "with_bearer ''forged.jwt''" sample_env sample_db "''forged.jwt''"
      "\<lparr>name = ''JsonWebTokenError'', message = ''invalid signature''\<rparr>"]
    sample_bearer(3) sample_verify(2) n2
  have 3: "authenticateToken sample_env sample_db (with_bearer ''forged.jwt'') =
     Respond (error_response 401 ''Invalid token'' ''The provided token is malformed or invalid'')"
    by blast
  from C3 [of "with_bearer ''orphan.jwt''" sample_env sample_db "''orphan.jwt''" _ orphan_token]
    sample_bearer(4) sample_verify(3) sample_users(1)
  have 4: "authenticateToken sample_env sample_db (with_bearer ''orphan.jwt'') =
     Respond (error_response 401 ''User no longer exists''
                 ''The account associated with this token has been removed'')"
    by blast
  from C3 [of "with_bearer ''issued.jwt''" sample_env sample_db "''issued.jwt''" _ issued_token alice]
    sample_bearer(5) sample_verify(4) sample_users(2)
  have 5: "authenticateToken sample_env sample_db (with_bearer ''issued.jwt'') =
     Next ((with_bearer ''issued.jwt'')\<lparr>user := Some (toSafeObject alice), userId := Some (u_id alice)\<rparr>)"
    by blast
  from 1 2 3 4 5 show ?thesis by blast
qed

text \<open>
  Claim C8. Optional-mode resolution always calls \<open>next()\<close>: where mandatory mode
  would reject (no bearer value, expired, malformed or forged token, unknown user, any
  other verification error, a failing store) it attaches \<open>null\<close> for both
  \<open>req.user\<close> and \<open>req.userId\<close>, and where mandatory mode proceeds it attaches
  exactly what mandatory mode attaches.
\<close>

theorem C8_optional_resolution_never_rejects:
  "optionalAuth env db req =
     (case authenticateToken env db req of
        Next req' \<Rightarrow> Next req'
      | Respond r \<Rightarrow> Next (anonymous req)) \<and>
   (\<exists>req'. optionalAuth env db req = Next req') \<and>
   user (anonymous req) = None \<and> userId (anonymous req) = None"
proof -
  have main: "optionalAuth env db req =
     (case authenticateToken env db req of
        Next req' \<Rightarrow> Next req'
      | Respond r \<Rightarrow> Next (anonymous req))"
  proof (cases "bearer_value req")
    case None
    then show ?thesis
      by (simp add: optional_bearer_none bearer_none)
  next
    case (Some tok)
    then show ?thesis
      by (simp add: optional_bearer_some bearer_some split: sum.splits option.splits)
  qed
  then have "\<exists>req'. optionalAuth env db req = Next req'"
    by (cases "authenticateToken env db req") simp_all
  with main show ?thesis
    by (simp add: anonymous_def)
qed

theorem C8_optional_resolution_never_rejects_witness:
  "authenticateToken sample_env sample_db (with_bearer ''stale.jwt'') =
     Respond (error_response 401 ''Token has expired'' ''Please log in again to get a new token'') \<and>
   optionalAuth sample_env sample_db (with_bearer ''stale.jwt'') =
     Next (anonymous (with_bearer ''stale.jwt'')) \<and>
   authenticateToken sample_env sample_db (with_bearer ''issued.jwt'') =
     Next ((with_bearer ''issued.jwt'')\<lparr>user := Some (toSafeObject alice), userId := Some 1\<rparr>) \<and>
   optionalAuth sample_env sample_db (with_bearer ''issued.jwt'') =
     Next ((with_bearer ''issued.jwt'')\<lparr>user := Some (toSafeObject alice), userId := Some 1\<rparr>)"
proof -
  have stale: "authenticateToken sample_env sample_db (with_bearer ''stale.jwt'') =
     Respond (error_response 401 ''Token has expired'' ''Please log in again to get a new token'')"
    by code_simp
  have issued: "authenticateToken sample_env sample_db (with_bearer ''issued.jwt'') =
     Next ((with_bearer ''issued.jwt'')\<lparr>user := Some (toSafeObject alice), userId := Some 1\<rparr>)"
    by code_simp
  from C8_optional_resolution_never_rejects [of sample_env sample_db "with_bearer ''stale.jwt''"]
  have 1: "optionalAuth sample_env sample_db (with_bearer ''stale.jwt'') =
     Next (anonymous (with_bearer ''stale.jwt''))"
    unfolding stale by simp
  from C8_optional_resolution_never_rejects [of sample_env sample_db "with_bearer ''issued.jwt''"]
  have 2: "optionalAuth sample_env sample_db (with_bearer ''issued.jwt'') =
     Next ((with_bearer ''issued.jwt'')\<lparr>user := Some (toSafeObject alice), userId := Some 1\<rparr>)"
    unfolding issued by simp
  from stale issued 1 2 show ?thesis by blast
qed

text \<open>
  Claim C1, as the code has it. Both middleware call \<open>jwt.verify(token, secret)\<close>
  with no options, so the signature and the expiry are checked and the issuer and the
  audience are not. Whenever a subject is attached to the request (mandatory mode
  proceeds, or optional mode attaches an identity), the bearer value decodes to a token
  whose signature verifies under \<open>JWT_SECRET\<close>, which has not expired, and whose
  \<open>userId\<close> is the id of the stored user that is attached. Put the other way round:
  a token with a bad signature or past its expiry never gets its subject attached.
\<close>

theorem C1_signature_and_expiry_before_trust:
  "(authenticateToken env db req = Next req' \<longrightarrow>
     (\<exists>tok t u. bearer_value req = Some tok \<and> jwt_decode env tok = Some t \<and>
        JWT_SECRET env = Some (sig_key t) \<and> sig_key t \<noteq> [] \<and>
        \<not> expired t (now_ms env div 1000) \<and>
        User_findById db (c_userId t) = Inr (Some u) \<and>
        req' = req\<lparr>user := Some (toSafeObject u), userId := Some (u_id u)\<rparr>)) \<and>
   (optionalAuth env db req = Next req' \<and> req' \<noteq> anonymous req \<longrightarrow>
     (\<exists>tok t u. bearer_value req = Some tok \<and> jwt_decode env tok = Some t \<and>
        JWT_SECRET env = Some (sig_key t) \<and> sig_key t \<noteq> [] \<and>
        \<not> expired t (now_ms env div 1000) \<and>
        User_findById db (c_userId t) = Inr (Some u) \<and>
        req' = req\<lparr>user := Some (toSafeObject u), userId := Some (u_id u)\<rparr>))"
proof (intro conjI impI)
  assume "authenticateToken env db req = Next req'"
  from authenticateToken_Next [OF this] obtain tok t u
    where "bearer_value req = Some tok"
      and t: "jwt_verify env tok (JWT_SECRET env) no_verify_options = Inr t"
      and "User_findById db (c_userId t) = Inr (Some u)"
      and "req' = req\<lparr>user := Some (toSafeObject u), userId := Some (u_id u)\<rparr>"
    by blast
  with jwt_verify_Inr [OF t]
  show "\<exists>tok t u. bearer_value req = Some tok \<and> jwt_decode env tok = Some t \<and>
        JWT_SECRET env = Some (sig_key t) \<and> sig_key t \<noteq> [] \<and>
        \<not> expired t (now_ms env div 1000) \<and>
        User_findById db (c_userId t) = Inr (Some u) \<and>
        req' = req\<lparr>user := Some (toSafeObject u), userId := Some (u_id u)\<rparr>"
    by blast
next
  assume "optionalAuth env db req = Next req' \<and> req' \<noteq> anonymous req"
  then have "optionalAuth env db req = Next req'" and "req' \<noteq> anonymous req"
    by simp_all
  from optionalAuth_identified [OF this] obtain tok t u
    where "bearer_value req = Some tok"
      and t: "jwt_verify env tok (JWT_SECRET env) no_verify_options = Inr t"
      and "User_findById db (c_userId t) = Inr (Some u)"
      and "req' = req\<lparr>user := Some (toSafeObject u), userId := Some (u_id u)\<rparr>"
    by blast
  with jwt_verify_Inr [OF t]
  show "\<exists>tok t u. bearer_value req = Some tok \<and> jwt_decode env tok = Some t \<and>
        JWT_SECRET env = Some (sig_key t) \<and> sig_key t \<noteq> [] \<and>
        \<not> expired t (now_ms env div 1000) \<and>
        User_findById db (c_userId t) = Inr (Some u) \<and>
        req' = req\<lparr>user := Some (toSafeObject u), userId := Some (u_id u)\<rparr>"
    by blast
qed

theorem C1_signature_and_expiry_before_trust_witness:
  "authenticateToken sample_env sample_db (with_bearer ''issued.jwt'') =
     Next ((with_bearer ''issued.jwt'')\<lparr>user := Some (toSafeObject alice), userId := Some 1\<rparr>) \<and>
   (\<exists>tok t u. bearer_value (with_bearer ''issued.jwt'') = Some tok \<and>
        jwt_decode sample_env tok = Some t \<and>
        JWT_SECRET sample_env = Some (sig_key t) \<and> sig_key t \<noteq> [] \<and>
        \<not> expired t (now_ms sample_env div 1000) \<and>
        User_findById sample_db (c_userId t) = Inr (Some u) \<and>
        (with_bearer ''issued.jwt'')\<lparr>user := Some (toSafeObject alice), userId := Some 1\<rparr> =
        (with_bearer ''issued.jwt'')\<lparr>user := Some (toSafeObject u), userId := Some (u_id u)\<rparr>)"
proof -
  have issued: "authenticateToken sample_env sample_db (with_bearer ''issued.jwt'') =
     Next ((with_bearer ''issued.jwt'')\<lparr>user := Some (toSafeObject alice), userId := Some 1\<rparr>)"
    by code_simp
  from C1_signature_and_expiry_before_trust [of sample_env sample_db "with_bearer ''issued.jwt''"
      "(with_bearer ''issued.jwt'')\<lparr>user := Some (toSafeObject alice), userId := Some 1\<rparr>"] issued
  show ?thesis by blast
qed

text \<open>
  Claim C1 as stated fails. A token signed with \<open>JWT_SECRET\<close> and not expired, whose
  issuer is not \<open>blog-platform\<close> and whose audience is not
  \<open>blog-platform-users\<close>, would be refused by a verification that names the
  expected issuer or audience; both middleware accept it and attach its subject.
\<close>

theorem C1_issuer_and_audience_unchecked:
  "jwt_decode sample_env ''foreign.jwt'' = Some foreign_token \<and>
   c_iss foreign_token = Some ''another-service'' \<and>
   c_aud foreign_token = Some ''another-audience'' \<and>
   jwt_verify sample_env ''foreign.jwt'' (JWT_SECRET sample_env)
     \<lparr>expect_issuer = Some ''blog-platform'', expect_audience = None\<rparr> =
     Inl (JsonWebTokenError ''jwt issuer invalid. expected: blog-platform'') \<and>
   jwt_verify sample_env ''foreign.jwt'' (JWT_SECRET sample_env)
     \<lparr>expect_issuer = None, expect_audience = Some ''blog-platform-users''\<rparr> =
     Inl (JsonWebTokenError ''jwt audience invalid. expected: blog-platform-users'') \<and>
   authenticateToken sample_env sample_db (with_bearer ''foreign.jwt'') =
     Next ((with_bearer ''foreign.jwt'')\<lparr>user := Some (toSafeObject alice), userId := Some 1\<rparr>) \<and>
   optionalAuth sample_env sample_db (with_bearer ''foreign.jwt'') =
     Next ((with_bearer ''foreign.jwt'')\<lparr>user := Some (toSafeObject alice), userId := Some 1\<rparr>)"
  by code_simp

section \<open>Issuing and verifying\<close>





section \<open>Login failures and the safe view\<close>

lemma login_unknown_email:
  "is_string (body_email req) \<Longrightarrow>
   User_findByEmail db (trim (toLowerCase (text_of (body_email req)))) = Inr None \<Longrightarrow>
   login env db req =
     (if js_not (body_email req) \<or> js_not (body_password req)
      then error_response 400 ''Missing credentials'' ''Both email and password are required''
      else error_response 401 ''Invalid credentials'' ''Email or password is incorrect'')"
  by (simp add: login_def Let_def)

lemma login_wrong_password:
  "is_string (body_email req) \<Longrightarrow>
   User_findByEmail db (trim (toLowerCase (text_of (body_email req)))) = Inr (Some u) \<Longrightarrow>
   verifyPassword env u (body_password req) = Inr False \<Longrightarrow>
   login env db req =
     (if js_not (body_email req) \<or> js_not (body_password req)
      then error_response 400 ''Missing credentials'' ''Both email and password are required''
      else error_response 401 ''Invalid credentials'' ''Email or password is incorrect'')"
  by (simp add: login_def Let_def)

lemma verifyPassword_string:
  "is_string password \<Longrightarrow>
   verifyPassword env u password = Inr (bcrypt_compare env (text_of password) (u_passwordHash u))"
  by (simp add: verifyPassword_def compare_password_def)

lemma verifyPassword_not_string:
  "\<not> is_string password \<Longrightarrow>
   verifyPassword env u password =
     Inl (''Failed to verify password: Illegal arguments: '' @ js_typeof password @ '', string'')"
  by (simp add: verifyPassword_def compare_password_def)

text \<open>
  When email and password are strings the two failures of \<open>login\<close> cannot be told
  apart: an unknown email and a known email with a password that \<open>bcrypt.compare\<close>
  refuses get the same response, 401 ``Invalid credentials'' (or the same 400 when one
  of the two is empty).
\<close>

lemma login_failures_identical_for_strings:
  "is_string (body_email req) \<Longrightarrow> is_string (body_password req) \<Longrightarrow>
   User_findByEmail db1 (trim (toLowerCase (text_of (body_email req)))) = Inr None \<Longrightarrow>
   User_findByEmail db2 (trim (toLowerCase (text_of (body_email req)))) = Inr (Some u) \<Longrightarrow>
   \<not> bcrypt_compare env2 (text_of (body_password req)) (u_passwordHash u) \<Longrightarrow>
   login env1 db1 req = login env2 db2 req \<and>
   (\<not> js_not (body_email req) \<and> \<not> js_not (body_password req) \<longrightarrow>
      login env2 db2 req =
        error_response 401 ''Invalid credentials'' ''Email or password is incorrect'')"
  by (simp add: login_unknown_email login_wrong_password verifyPassword_string)

lemma login_failures_identical_for_strings_witness:
  "User_findByEmail without_alice ''a@x.com'' = Inr None \<and>
   User_findByEmail sample_db ''a@x.com'' = Inr (Some alice) \<and>
   login sample_env without_alice (login_attempt ''A@x.com '' ''not-the-password'') =
     error_response 401 ''Invalid credentials'' ''Email or password is incorrect'' \<and>
   login sample_env sample_db (login_attempt ''A@x.com '' ''not-the-password'') =
     error_response 401 ''Invalid credentials'' ''Email or password is incorrect''"
proof -
  let ?req = "login_attempt ''A@x.com '' ''not-the-password''"
  have e: "trim (toLowerCase (text_of (body_email ?req))) = ''a@x.com''"
    by code_simp
  have 1: "User_findByEmail without_alice ''a@x.com'' = Inr None"
    and 2: "User_findByEmail sample_db ''a@x.com'' = Inr (Some alice)"
    and 3: "\<not> bcrypt_compare sample_env (text_of (body_password ?req)) (u_passwordHash alice)"
    and 4: "\<not> js_not (body_email ?req)"
    and 5: "\<not> js_not (body_password ?req)"
    and 6: "is_string (body_email ?req)"
    and 7: "is_string (body_password ?req)"
    by code_simp+
  from login_failures_identical_for_strings
    [of ?req without_alice sample_db alice sample_env sample_env]
    1 2 3 4 5 6 7
  have "login sample_env without_alice ?req = login sample_env sample_db ?req"
    and "login sample_env sample_db ?req =
          error_response 401 ''Invalid credentials'' ''Email or password is incorrect''"
    unfolding e by blast+
  with 1 2 show ?thesis by simp
qed

text \<open>
  Claim C5 does not hold of the code. The handler receives whatever JSON the client
  sent. With a password that is a number, \<open>{"email": "a@x.com", "password": 123456}\<close>,
  \<open>bcrypt.compare\<close> rejects its argument, \<open>verifyPassword\<close> rethrows and the
  \<open>catch\<close> of \<open>login\<close> answers 500 ``Login failed'' -- but only when the email
  is registered, since otherwise \<open>login\<close> has already answered 401 ``Invalid
  credentials''. The two responses differ in status, \<open>error\<close> and \<open>details\<close>.
\<close>

theorem C5_number_password_reveals_registered_email:
  "User_findByEmail without_alice ''a@x.com'' = Inr None \<and>
   User_findByEmail sample_db ''a@x.com'' = Inr (Some alice) \<and>
   verifyPassword sample_env alice (body_password number_password_attempt) =
     Inl ''Failed to verify password: Illegal arguments: number, string'' \<and>
   login sample_env without_alice number_password_attempt =
     error_response 401 ''Invalid credentials'' ''Email or password is incorrect'' \<and>
   login sample_env sample_db number_password_attempt =
     error_response 500 ''Login failed''
       ''An unexpected error occurred. Please try again later.''"
  by code_simp

lemma keys_error_response [simp]: "body_keys (error_response c e d) = [''error'', ''details'']"
  by (simp add: body_keys_def error_response_def json_response_def)

lemma keys_json_response [simp]: "body_keys (json_response c kvs) = keys_of (JObj kvs)"
  by (simp add: body_keys_def json_response_def)

lemma keys_toSafeObject [simp]: "keys_of (toSafeObject u) = [''id'', ''email'', ''createdAt'']"
  by (simp add: toSafeObject_def)

lemma find_in_set: "find P xs = Some x \<Longrightarrow> x \<in> set xs"
  by (auto simp: find_Some_iff)

lemma User_findById_in_users: "User_findById db i = Inr (Some u) \<Longrightarrow> u \<in> set (users db)"
  by (auto simp: User_findById_def select_user_by_id_def dest: find_in_set split: option.splits sum.splits)

lemma User_findByEmail_in_users: "User_findByEmail db e = Inr (Some u) \<Longrightarrow> u \<in> set (users db)"
  by (auto simp: User_findByEmail_def select_user_by_email_def dest: find_in_set split: option.splits sum.splits)

lemma User_create_in_users:
  "User_create env db e p = (Inr (Some u), db') \<Longrightarrow> u \<in> set (users db')"
  by (auto simp: User_create_def dest: User_findById_in_users split: sum.splits option.splits prod.splits)

lemma register_keys: "''passwordHash'' \<notin> set (body_keys (fst (register env db req)))"
  by (auto simp: register_def Let_def split: sum.splits option.splits prod.splits)

lemma login_keys: "''passwordHash'' \<notin> set (body_keys (login env db req))"
  by (auto simp: login_def Let_def split: sum.splits option.splits prod.splits)

lemma register_user:
  "status (fst (register env db req)) = 201 \<Longrightarrow>
   \<exists>u. u \<in> set (users (snd (register env db req))) \<and>
     body_field ''user'' (fst (register env db req)) = Some (toSafeObject u)"
  by (auto simp: register_def Let_def body_field_def field_def json_response_def error_response_def
      dest: User_create_in_users
      split: sum.splits option.splits prod.splits if_splits)

lemma login_user:
  "status (login env db req) = 200 \<Longrightarrow>
   \<exists>u. u \<in> set (users db) \<and> body_field ''user'' (login env db req) = Some (toSafeObject u)"
  by (auto simp: login_def Let_def body_field_def field_def json_response_def error_response_def
      dest: User_findByEmail_in_users
      split: sum.splits option.splits prod.splits if_splits)

lemma route_me_user:
  "status (route_me env db req) = 200 \<Longrightarrow>
   \<exists>u. u \<in> set (users db) \<and> body_field ''user'' (route_me env db req) = Some (toSafeObject u)"
  apply (cases "authenticateToken env db req")
  subgoal for r
   apply (cases "bearer_value req")
     apply (auto simp: route_me_def bearer_none bearer_some error_response_def json_response_def
        split: if_splits sum.splits option.splits)
    done
  subgoal for r
    by (auto simp: route_me_def getCurrentUser_def body_field_def field_def json_response_def
        dest!: authenticateToken_Next dest: User_findById_in_users)
  done

lemma route_me_keys: "''passwordHash'' \<notin> set (body_keys (route_me env db req))"
  apply (cases "authenticateToken env db req")
  subgoal for r
   apply (cases "bearer_value req")
     apply (auto simp: route_me_def bearer_none bearer_some 
        split: if_splits sum.splits option.splits)
    done
  subgoal for r
    by (auto simp: route_me_def getCurrentUser_def dest!: authenticateToken_Next)
  done

text \<open>
  Claim C7. \<open>toSafeObject\<close> is the object \<open>{id, email, createdAt}\<close> and does not
  depend on the password digest. No response of registration, login or the
  current-identity route has a key \<open>passwordHash\<close> anywhere in its body; the
  \<open>user\<close> of a successful registration (201), login (200) or current-identity
  lookup (200) is the safe view of a stored user; and what either middleware attaches as
  \<open>req.user\<close> is the safe view of a stored user (or \<open>null\<close> in optional mode).
\<close>

theorem C7_identity_leaves_as_safe_view:
  "toSafeObject u =
     JObj [(''id'', JNum (int (u_id u))), (''email'', JStr (u_email u)),
           (''createdAt'', JStr (u_createdAt u))] \<and>
   toSafeObject (u\<lparr>u_passwordHash := h\<rparr>) = toSafeObject u \<and>
   ''passwordHash'' \<notin> set (body_keys (fst (register env db req))) \<and>
   ''passwordHash'' \<notin> set (body_keys (login env db req)) \<and>
   ''passwordHash'' \<notin> set (body_keys (route_me env db req)) \<and>
   (status (fst (register env db req)) = 201 \<longrightarrow>
      (\<exists>v. v \<in> set (users (snd (register env db req))) \<and>
           body_field ''user'' (fst (register env db req)) = Some (toSafeObject v))) \<and>
   (status (login env db req) = 200 \<longrightarrow>
      (\<exists>v. v \<in> set (users db) \<and>
           body_field ''user'' (login env db req) = Some (toSafeObject v))) \<and>
   (status (route_me env db req) = 200 \<longrightarrow>
      (\<exists>v. v \<in> set (users db) \<and>
           body_field ''user'' (route_me env db req) = Some (toSafeObject v))) \<and>
   (authenticateToken env db req = Next req' \<longrightarrow>
      (\<exists>v. v \<in> set (users db) \<and> user req' = Some (toSafeObject v) \<and>
           userId req' = Some (u_id v))) \<and>
   (optionalAuth env db req = Next req' \<and> req' \<noteq> anonymous req \<longrightarrow>
      (\<exists>v. v \<in> set (users db) \<and> user req' = Some (toSafeObject v) \<and>
           userId req' = Some (u_id v)))"
proof (intro conjI impI)
  show "toSafeObject u =
     JObj [(''id'', JNum (int (u_id u))), (''email'', JStr (u_email u)),
           (''createdAt'', JStr (u_createdAt u))]"
    by (simp add: toSafeObject_def)
  show "toSafeObject (u\<lparr>u_passwordHash := h\<rparr>) = toSafeObject u"
    by (simp add: toSafeObject_def)
  show "''passwordHash'' \<notin> set (body_keys (fst (register env db req)))"
    by (rule register_keys)
  show "''passwordHash'' \<notin> set (body_keys (login env db req))"
    by (rule login_keys)
  show "''passwordHash'' \<notin> set (body_keys (route_me env db req))"
    by (rule route_me_keys)
next
  assume "status (fst (register env db req)) = 201"
  then show "\<exists>v. v \<in> set (users (snd (register env db req))) \<and>
           body_field ''user'' (fst (register env db req)) = Some (toSafeObject v)"
    by (rule register_user)
next
  assume "status (login env db req) = 200"
  then show "\<exists>v. v \<in> set (users db) \<and>
           body_field ''user'' (login env db req) = Some (toSafeObject v)"
    by (rule login_user)
next
  assume "status (route_me env db req) = 200"
  then show "\<exists>v. v \<in> set (users db) \<and>
           body_field ''user'' (route_me env db req) = Some (toSafeObject v)"
    by (rule route_me_user)
next
  assume "authenticateToken env db req = Next req'"
  from authenticateToken_Next [OF this]
  show "\<exists>v. v \<in> set (users db) \<and> user req' = Some (toSafeObject v) \<and>
           userId req' = Some (u_id v)"
    by (auto dest: User_findById_in_users)
next
  assume "optionalAuth env db req = Next req' \<and> req' \<noteq> anonymous req"
  then have "optionalAuth env db req = Next req'" and "req' \<noteq> anonymous req"
    by simp_all
  from optionalAuth_identified [OF this]
  show "\<exists>v. v \<in> set (users db) \<and> user req' = Some (toSafeObject v) \<and>
           userId req' = Some (u_id v)"
    by (auto dest: User_findById_in_users)
qed

theorem C7_identity_leaves_as_safe_view_witness:
  "login sample_env sample_db (login_attempt ''a@x.com'' ''secret1'') =
     json_response 200
       [(''message'', JStr ''Login successful''),
        (''user'', JObj [(''id'', JNum 1), (''email'', JStr ''a@x.com''),
                         (''createdAt'', JStr ''2023-11-01 10:00:00'')]),
        (''token'', JStr ''issued.jwt'')] \<and>
   ''passwordHash'' \<notin> set (body_keys (login sample_env sample_db (login_attempt ''a@x.com'' ''secret1''))) \<and>
   (\<exists>v. v \<in> set (users sample_db) \<and>
        body_field ''user'' (login sample_env sample_db (login_attempt ''a@x.com'' ''secret1'')) =
          Some (toSafeObject v)) \<and>
   status (fst (register sample_env sample_db (login_attempt ''c@x.com'' ''secret3''))) = 201 \<and>
   (\<exists>v. v \<in> set (users (snd (register sample_env sample_db (login_attempt ''c@x.com'' ''secret3'')))) \<and>
        body_field ''user'' (fst (register sample_env sample_db (login_attempt ''c@x.com'' ''secret3''))) =
          Some (toSafeObject v)) \<and>
   route_me sample_env sample_db (with_bearer ''issued.jwt'') =
     json_response 200
       [(''message'', JStr ''User retrieved successfully''),
        (''user'', JObj [(''id'', JNum 1), (''email'', JStr ''a@x.com''),
                         (''createdAt'', JStr ''2023-11-01 10:00:00'')])] \<and>
   (\<exists>v. v \<in> set (users sample_db) \<and>
        body_field ''user'' (route_me sample_env sample_db (with_bearer ''issued.jwt'')) =
          Some (toSafeObject v))"
proof -
  have l: "login sample_env sample_db (login_attempt ''a@x.com'' ''secret1'') =
     json_response 200
       [(''message'', JStr ''Login successful''),
        (''user'', JObj [(''id'', JNum 1), (''email'', JStr ''a@x.com''),
                         (''createdAt'', JStr ''2023-11-01 10:00:00'')]),
        (''token'', JStr ''issued.jwt'')]"
    by code_simp
  have ls: "status (login sample_env sample_db (login_attempt ''a@x.com'' ''secret1'')) = 200"
    by code_simp
  have r: "status (fst (register sample_env sample_db (login_attempt ''c@x.com'' ''secret3''))) = 201"
    by code_simp
  have m: "route_me sample_env sample_db (with_bearer ''issued.jwt'') =
     json_response 200
       [(''message'', JStr ''User retrieved successfully''),
        (''user'', JObj [(''id'', JNum 1), (''email'', JStr ''a@x.com''),
                         (''createdAt'', JStr ''2023-11-01 10:00:00'')])]"
    by code_simp
  have ms: "status (route_me sample_env sample_db (with_bearer ''issued.jwt'')) = 200"
    by code_simp
  note C7 = C7_identity_leaves_as_safe_view
  from C7 [of alice _ sample_env sample_db "login_attempt ''a@x.com'' ''secret1''"] ls
  have 1: "''passwordHash'' \<notin> set (body_keys (login sample_env sample_db (login_attempt ''a@x.com'' ''secret1'')))"
    and 2: "\<exists>v. v \<in> set (users sample_db) \<and>
        body_field ''user'' (login sample_env sample_db (login_attempt ''a@x.com'' ''secret1'')) =
          Some (toSafeObject v)"
    by blast+
  from C7 [of alice _ sample_env sample_db "login_attempt ''c@x.com'' ''secret3''"] r
  have 3: "\<exists>v. v \<in> set (users (snd (register sample_env sample_db (login_attempt ''c@x.com'' ''secret3'')))) \<and>
        body_field ''user'' (fst (register sample_env sample_db (login_attempt ''c@x.com'' ''secret3''))) =
          Some (toSafeObject v)"
    by blast
  from C7 [of alice _ sample_env sample_db "with_bearer ''issued.jwt''"] ms
  have 4: "\<exists>v. v \<in> set (users sample_db) \<and>
        body_field ''user'' (route_me sample_env sample_db (with_bearer ''issued.jwt'')) =
          Some (toSafeObject v)"
    by blast
  from l r m 1 2 3 4 show ?thesis by blast
qed

section \<open>Validation on create and on update\<close>

text \<open>
  \<open>createPost\<close> enforces the minimum lengths: with an identity attached, a title
  whose trimmed text has fewer than 3 characters or a content whose trimmed text has
  fewer than 10 is answered 400 and nothing is stored.
\<close>

lemma createPost_enforces_minimum_lengths:
  "\<not> no_user (userId req) \<Longrightarrow>
   is_string (body_title req) \<Longrightarrow> is_string (body_content req) \<Longrightarrow>
   length (trim (text_of (body_title req))) < 3 \<or>
   length (trim (text_of (body_content req))) < 10 \<Longrightarrow>
   status (fst (createPost db req)) = 400 \<and> snd (createPost db req) = db"
  by (auto simp: createPost_def Let_def error_response_def json_response_def)

lemma createPost_enforces_minimum_lengths_witness:
  "status (fst (createPost sample_db (short_texts_request\<lparr>userId := Some 1\<rparr>))) = 400 \<and>
   snd (createPost sample_db (short_texts_request\<lparr>userId := Some 1\<rparr>)) = sample_db"
proof -
  let ?req = "short_texts_request\<lparr>userId := Some 1\<rparr>"
  have "\<not> no_user (userId ?req)" "is_string (body_title ?req)" "is_string (body_content ?req)"
    "length (trim (text_of (body_title ?req))) < 3 \<or>
     length (trim (text_of (body_content ?req))) < 10"
    by code_simp+
  from createPost_enforces_minimum_lengths [OF this, of sample_db]
  show ?thesis .
qed

text \<open>
  \<open>updatePost\<close> has no such check: for the owner, any title and content that are
  strings and not blank are stored, trimmed, whatever their length.
\<close>

lemma updatePost_stores_any_text_that_is_not_blank:
  "\<not> no_user (userId req) \<Longrightarrow> positive_id (params_id req) = Some i \<Longrightarrow>
   Post_findById db i = Inr (Some post) \<Longrightarrow> p_authorId post = id_of (userId req) \<Longrightarrow>
   body_title req = Some (JStr t) \<Longrightarrow> body_content req = Some (JStr c) \<Longrightarrow>
   trim t \<noteq> [] \<Longrightarrow> trim c \<noteq> [] \<Longrightarrow>
   status (fst (updatePost db req)) = 200 \<and>
   posts (snd (updatePost db req)) =
     map (update_post_row (trim t) (trim c) (p_id post)) (posts db)"
proof -
  assume a: "\<not> no_user (userId req)" "positive_id (params_id req) = Some i"
    "Post_findById db i = Inr (Some post)" "p_authorId post = id_of (userId req)"
    "body_title req = Some (JStr t)" "body_content req = Some (JStr c)"
    "trim t \<noteq> []" "trim c \<noteq> []"
  from a(3) have healthy: "fault db = None"
    by (auto simp: Post_findById_def select_post_by_id_def split: option.splits sum.splits)
  from a(7,8) have "t \<noteq> []" "c \<noteq> []"
    by (auto simp: trim_def)
  then have b: "blank ''title'' (Some (JStr t)) = Inr False"
    "blank ''content'' (Some (JStr c)) = Inr False"
    "\<not> js_not (Some (JStr t))" "\<not> js_not (Some (JStr c))"
    using a(7,8) by (simp_all add: blank_def js_not_def is_string_def text_of_def)
  have "Post_update db post (Some (JStr t)) (Some (JStr c)) (id_of (userId req)) =
      (Inr (post\<lparr>p_title := trim t, p_content := trim c\<rparr>),
       db\<lparr>posts := map (update_post_row (trim t) (trim c) (p_id post)) (posts db)\<rparr>)"
    using a(4) b healthy
    by (simp add: Post_update_def update_post_def text_of_def Let_def)
  with a b show ?thesis
    by (simp add: updatePost_def Let_def json_response_def)
qed

text \<open>
  Claim C4 does not hold of the code. An owner's update with the title \<open>ab\<close> and
  the content \<open>short\<close> is answered 200 and stored, although the same texts are
  refused with 400 ``Title too short'' on create. (A title or content of white space
  only is refused on update too, but by \<open>Post.update\<close> throwing, which the handler
  answers with 500 and not with a validation error.)
\<close>

theorem C4_update_skips_the_minimum_lengths:
  "route_createPost sample_env sample_db short_texts_request =
     (error_response 400 ''Title too short'' ''Title must be at least 3 characters long'',
      sample_db) \<and>
   route_updatePost sample_env sample_db short_texts_request =
     (json_response 200
        [(''message'', JStr ''Post updated successfully''),
         (''post'', toObject ((join_author sample_db hi_there)
                      \<lparr>p_title := ''ab'', p_content := ''short''\<rparr>))],
      sample_db\<lparr>posts := [hi_there\<lparr>r_title := ''ab'', r_content := ''short''\<rparr>]\<rparr>) \<and>
   fst (route_updatePost sample_env sample_db
          (short_texts_request\<lparr>body_title := Some (JStr ''   '')\<rparr>)) =
     error_response 500 ''Failed to update post''
       ''An unexpected error occurred. Please try again later.''"
  by code_simp

lemma updatePost_stores_any_text_that_is_not_blank_witness:
  "status (fst (updatePost sample_db (short_texts_request\<lparr>userId := Some 1\<rparr>))) = 200 \<and>
   posts (snd (updatePost sample_db (short_texts_request\<lparr>userId := Some 1\<rparr>))) =
     [hi_there\<lparr>r_title := ''ab'', r_content := ''short''\<rparr>]"
proof -
  let ?req = "short_texts_request\<lparr>userId := Some 1\<rparr>"
  have 1: "\<not> no_user (userId ?req)" "positive_id (params_id ?req) = Some 1"
    "Post_findById sample_db 1 = Inr (Some (join_author sample_db hi_there))"
    "p_authorId (join_author sample_db hi_there) = id_of (userId ?req)"
    "body_title ?req = Some (JStr ''ab'')" "body_content ?req = Some (JStr ''short'')"
    "trim ''ab'' \<noteq> []" "trim ''short'' \<noteq> []"
    by code_simp+
  have 2: "map (update_post_row (trim ''ab'') (trim ''short'')
             (p_id (join_author sample_db hi_there))) (posts sample_db) =
           [hi_there\<lparr>r_title := ''ab'', r_content := ''short''\<rparr>]"
    by code_simp
  from updatePost_stores_any_text_that_is_not_blank [OF 1]
  show ?thesis unfolding 2 .
qed

section \<open>Summaries in list endpoints\<close>




lemma summary_of_short: "length c \<le> m \<Longrightarrow> summary_of c m = c"
  by (simp add: summary_of_def)














end
